theory Spec2Isabelle
  imports Complex_Main
begin

section \<open>Python values, exceptions and strings\<close>

text \<open>
  The exceptions of Python and of the web framework that the modelled code can raise.
  A function of the source that can raise returns \<open>py_error + 'a\<close>, with \<open>Inl\<close> for
  the exception.
\<close>

datatype py_error =
    AttributeError
  | KeyError
  | IndexError
  | TypeError
  | SMTPException
  | MultipleObjectsReturned
  | Http404
  | ValidationError "string list"

text \<open>
  \<open>ValidationError\<close> carries the keys of the error dictionary: the names of the fields
  that failed, or \<open>non_field_errors\<close> for a check on the whole payload. The
  (localized) messages are not modelled.
\<close>

text \<open>
  A string is a list of code points; the character type of HOL covers the code
  points below 256. \<open>str.strip()\<close> removes, at both ends, the characters for which
  \<open>str.isspace()\<close> holds: below 256 these are 9 to 13, 28 to 32, 133 and 160.
\<close>

definition isspace :: "char \<Rightarrow> bool" where
  "isspace c = (of_char c \<in> {9::nat, 10, 11, 12, 13, 28, 29, 30, 31, 32, 133, 160})"

definition strip :: "string \<Rightarrow> string" where
  "strip s = rev (dropWhile isspace (rev (dropWhile isspace s)))"

section \<open>users/models.py\<close>

datatype ROLES = user | moderator | admin

text \<open>\<open>ROLES.<member>.name\<close>: the member's identifier, which is what the role column stores.\<close>

fun role_name :: "ROLES \<Rightarrow> string" where
  "role_name user = ''user''"
| "role_name moderator = ''moderator''"
| "role_name admin = ''admin''"

text \<open>
  A row of the \<open>User\<close> table. The primary key \<open>user_id\<close> and \<open>is_superuser\<close> come
  from the framework's \<open>AbstractUser\<close>; the other columns are the ones
  \<open>users/models.py\<close> declares.
\<close>

record User =
  user_id :: nat
  username :: string
  email :: string
  bio :: string
  role :: string
  confirmation_code :: string
  is_superuser :: bool

text \<open>
  \<open>request.user\<close>: the framework's \<open>AnonymousUser\<close> when the request carries no valid
  credentials, the authenticated user's row otherwise.
\<close>

datatype caller = AnonymousUser | Authenticated User

fun is_anonymous :: "caller \<Rightarrow> bool" where
  "is_anonymous AnonymousUser = True"
| "is_anonymous (Authenticated u) = False"

fun is_authenticated :: "caller \<Rightarrow> bool" where
  "is_authenticated AnonymousUser = False"
| "is_authenticated (Authenticated u) = True"

text \<open>
  Attribute reads on \<open>request.user\<close>. \<open>AnonymousUser\<close> defines \<open>is_superuser = False\<close>
  but has no \<open>role\<close> attribute: reading it raises \<open>AttributeError\<close>.
\<close>

fun get_is_superuser :: "caller \<Rightarrow> py_error + bool" where
  "get_is_superuser AnonymousUser = Inr False"
| "get_is_superuser (Authenticated u) = Inr (is_superuser u)"

fun get_role :: "caller \<Rightarrow> py_error + string" where
  "get_role AnonymousUser = Inl AttributeError"
| "get_role (Authenticated u) = Inr (role u)"

section \<open>api/permissions.py\<close>

datatype http_method = GET | HEAD | OPTIONS | POST | PUT | PATCH | DELETE

definition SAFE_METHODS :: "http_method list" where
  "SAFE_METHODS = [GET, HEAD, OPTIONS]"

text \<open>
  A request, as far as the permission classes read it. \<open>authenticators\<close> tells whether
  the view has authentication classes configured (the framework's
  \<open>request.authenticators\<close> is non-empty).
\<close>

record request =
  req_user :: caller
  req_method :: http_method
  authenticators :: bool

text \<open>
  The object a detail route acts on, as far as the permission classes read it: a review
  or a comment, with the primary key of its \<open>author\<close>.
\<close>

record authored =
  author :: nat

text \<open>
  \<open>obj.author == request.user\<close>: two rows of the same model are equal when their
  primary keys are; a row is never equal to \<open>AnonymousUser\<close>.
\<close>

fun author_eq :: "nat \<Rightarrow> caller \<Rightarrow> bool" where
  "author_eq a AnonymousUser = False"
| "author_eq a (Authenticated u) = (a = user_id u)"

text \<open>\<open>BasePermission\<close>: both methods return \<open>True\<close> unless a subclass overrides them.\<close>

definition BasePermission_has_permission :: "request \<Rightarrow> py_error + bool" where
  "BasePermission_has_permission r = Inr True"

definition BasePermission_has_object_permission :: "request \<Rightarrow> authored \<Rightarrow> py_error + bool" where
  "BasePermission_has_object_permission r obj = Inr True"

definition IsReadOnly_has_permission :: "request \<Rightarrow> py_error + bool" where
  "IsReadOnly_has_permission r = Inr (req_method r \<in> set SAFE_METHODS)"

definition IsAdmin_has_permission :: "request \<Rightarrow> py_error + bool" where
  "IsAdmin_has_permission r =
     (if is_anonymous (req_user r) then Inr False
      else case get_role (req_user r) of
             Inl e \<Rightarrow> Inl e
           | Inr ro \<Rightarrow> Inr (ro = role_name admin))"

definition IsAdmin_has_object_permission :: "request \<Rightarrow> authored \<Rightarrow> py_error + bool" where
  "IsAdmin_has_object_permission r obj =
     (if is_anonymous (req_user r) then Inr False
      else case get_role (req_user r) of
             Inl e \<Rightarrow> Inl e
           | Inr ro \<Rightarrow> Inr (ro = role_name admin))"

definition IsSuperuser_has_permission :: "request \<Rightarrow> py_error + bool" where
  "IsSuperuser_has_permission r = get_is_superuser (req_user r)"

definition IsSuperuser_has_object_permission :: "request \<Rightarrow> authored \<Rightarrow> py_error + bool" where
  "IsSuperuser_has_object_permission r obj = get_is_superuser (req_user r)"

definition IsModerator_has_permission :: "request \<Rightarrow> py_error + bool" where
  "IsModerator_has_permission r =
     (if is_anonymous (req_user r) then Inr False
      else case get_role (req_user r) of
             Inl e \<Rightarrow> Inl e
           | Inr ro \<Rightarrow> Inr (ro = role_name moderator))"

definition IsModerator_has_object_permission :: "request \<Rightarrow> authored \<Rightarrow> py_error + bool" where
  "IsModerator_has_object_permission r obj =
     (if is_anonymous (req_user r) then Inr False
      else case get_role (req_user r) of
             Inl e \<Rightarrow> Inl e
           | Inr ro \<Rightarrow> Inr (ro = role_name moderator))"

text \<open>
  \<open>IsAuthor\<close> overrides \<open>has_object_permission\<close> only; its \<open>has_permission\<close> is the
  one it inherits from \<open>BasePermission\<close>.
\<close>

definition IsAuthor_has_permission :: "request \<Rightarrow> py_error + bool" where
  "IsAuthor_has_permission r = BasePermission_has_permission r"

definition IsAuthor_has_object_permission :: "request \<Rightarrow> authored \<Rightarrow> py_error + bool" where
  "IsAuthor_has_object_permission r obj = Inr (author_eq (author obj) (req_user r))"


subsection \<open>The framework's composition of permission classes\<close>

text \<open>
  Python's \<open>and\<close> and \<open>or\<close> on results that may raise: the right operand is
  evaluated only when the left one does not decide the result.
\<close>

definition py_and :: "py_error + bool \<Rightarrow> py_error + bool \<Rightarrow> py_error + bool" where
  "py_and x y = (case x of Inl e \<Rightarrow> Inl e | Inr b \<Rightarrow> if b then y else Inr False)"

definition py_or :: "py_error + bool \<Rightarrow> py_error + bool \<Rightarrow> py_error + bool" where
  "py_or x y = (case x of Inl e \<Rightarrow> Inl e | Inr b \<Rightarrow> if b then Inr True else y)"

text \<open>
  A permission class of a view: one of the classes of \<open>api/permissions.py\<close>, the
  framework's \<open>IsAuthenticated\<close>, or a combination built with \<open>&\<close> and \<open>|\<close>.
\<close>

datatype permission =
    IsAuthenticated
  | IsReadOnly
  | IsAdmin
  | IsSuperuser
  | IsModerator
  | IsAuthor
  | AND permission permission
  | OR permission permission

text \<open>
  How the framework's \<open>OR\<close> answers at the object level. Releases before 3.14 ask
  only the operands' object-level checks (\<open>ObjectOnly\<close>); later releases ask each
  operand's view-level check first (\<open>ViewThenObject\<close>). The release the project runs
  on is not part of the sources, so it is a parameter.
\<close>

datatype or_semantics = ObjectOnly | ViewThenObject

fun has_permission :: "request \<Rightarrow> permission \<Rightarrow> py_error + bool" where
  "has_permission r IsAuthenticated = Inr (is_authenticated (req_user r))"
| "has_permission r IsReadOnly = IsReadOnly_has_permission r"
| "has_permission r IsAdmin = IsAdmin_has_permission r"
| "has_permission r IsSuperuser = IsSuperuser_has_permission r"
| "has_permission r IsModerator = IsModerator_has_permission r"
| "has_permission r IsAuthor = IsAuthor_has_permission r"
| "has_permission r (AND p q) = py_and (has_permission r p) (has_permission r q)"
| "has_permission r (OR p q) = py_or (has_permission r p) (has_permission r q)"

fun has_object_permission ::
  "or_semantics \<Rightarrow> request \<Rightarrow> authored \<Rightarrow> permission \<Rightarrow> py_error + bool" where
  "has_object_permission s r obj IsAuthenticated = BasePermission_has_object_permission r obj"
| "has_object_permission s r obj IsReadOnly = BasePermission_has_object_permission r obj"
| "has_object_permission s r obj IsAdmin = IsAdmin_has_object_permission r obj"
| "has_object_permission s r obj IsSuperuser = IsSuperuser_has_object_permission r obj"
| "has_object_permission s r obj IsModerator = IsModerator_has_object_permission r obj"
| "has_object_permission s r obj IsAuthor = IsAuthor_has_object_permission r obj"
| "has_object_permission s r obj (AND p q) =
     py_and (has_object_permission s r obj p) (has_object_permission s r obj q)"
| "has_object_permission s r obj (OR p q) =
     (case s of
        ObjectOnly \<Rightarrow>
          py_or (has_object_permission s r obj p) (has_object_permission s r obj q)
      | ViewThenObject \<Rightarrow>
          py_or (py_and (has_permission r p) (has_object_permission s r obj p))
                (py_and (has_permission r q) (has_object_permission s r obj q)))"

text \<open>
  The outcome of the permission checks of a view. The framework's \<open>permission_denied\<close>
  raises \<open>NotAuthenticated\<close> when authentication classes are configured and none
  of them identified the caller, and \<open>PermissionDenied\<close> (status 403) otherwise.
\<close>

datatype access = Granted | NotAuthenticated | PermissionDenied

definition permission_denied :: "request \<Rightarrow> access" where
  "permission_denied r =
     (if authenticators r \<and> \<not> is_authenticated (req_user r) then NotAuthenticated
      else PermissionDenied)"

fun check_permissions :: "request \<Rightarrow> permission list \<Rightarrow> py_error + access" where
  "check_permissions r [] = Inr Granted"
| "check_permissions r (p # ps) =
     (case has_permission r p of
        Inl e \<Rightarrow> Inl e
      | Inr b \<Rightarrow> if b then check_permissions r ps else Inr (permission_denied r))"

fun check_object_permissions ::
  "or_semantics \<Rightarrow> request \<Rightarrow> authored \<Rightarrow> permission list \<Rightarrow> py_error + access" where
  "check_object_permissions s r obj [] = Inr Granted"
| "check_object_permissions s r obj (p # ps) =
     (case has_object_permission s r obj p of
        Inl e \<Rightarrow> Inl e
      | Inr b \<Rightarrow> if b then check_object_permissions s r obj ps
               else Inr (permission_denied r))"

text \<open>
  A detail route (update, partial update, destroy, retrieve) on an existing object:
  the view-level checks run when the request is dispatched, the object-level checks
  when the view fetches the object, before the action touches it.
\<close>

definition check_detail_route ::
  "or_semantics \<Rightarrow> permission list \<Rightarrow> request \<Rightarrow> authored \<Rightarrow> py_error + access" where
  "check_detail_route s ps r obj =
     (case check_permissions r ps of
        Inl e \<Rightarrow> Inl e
      | Inr a \<Rightarrow> if a = Granted then check_object_permissions s r obj ps else Inr a)"

section \<open>api/views.py: permissions of the review and comment views\<close>

text \<open>\<open>self.action\<close> is the name of the handler the router chose, a string.\<close>

definition ReviewViewSet_get_permissions :: "string \<Rightarrow> permission list" where
  "ReviewViewSet_get_permissions action =
     (if action \<in> set [''partial_update'', ''destroy'']
      then [AND IsAuthenticated (OR (OR (OR IsAuthor IsModerator) IsAdmin) IsSuperuser)]
      else [OR (AND IsAuthenticated IsAuthor) IsReadOnly])"

definition CommentViewSet_get_permissions :: "string \<Rightarrow> permission list" where
  "CommentViewSet_get_permissions action =
     (if action \<in> set [''partial_update'', ''destroy'']
      then [AND IsAuthenticated (OR (OR (OR IsAuthor IsModerator) IsAdmin) IsSuperuser)]
      else [OR (AND IsAuthenticated IsAuthor) IsReadOnly])"

text \<open>
  The policy in the specification's words:
  Authenticated AND (IsAuthor OR IsModerator OR IsAdmin OR IsSuperuser).
\<close>

fun spec_may_modify :: "caller \<Rightarrow> authored \<Rightarrow> bool" where
  "spec_may_modify AnonymousUser obj = False"
| "spec_may_modify (Authenticated u) obj =
     (author obj = user_id u \<or> role u = ''moderator'' \<or> role u = ''admin'' \<or> is_superuser u)"


section \<open>The store and the responses\<close>

text \<open>
  The tables of \<open>reviews/models.py\<close>, which is not among the sources: the columns are
  the ones the serializers and views name. Foreign keys hold the primary key of the row
  they point to. A review is an \<open>authored\<close> object. Where a column name is taken
  in HOL or by another table, it carries the table's name: the keys \<open>id\<close> are
  \<open>title_id\<close>, \<open>genre_id\<close> and \<open>review_id\<close>, the genre's \<open>name\<close> is
  \<open>genre_name\<close>, the review's \<open>text\<close> and \<open>title\<close> are \<open>review_text\<close> and
  \<open>review_title\<close>.
\<close>

record Title =
  title_id :: nat
  name :: string
  year :: int
  description :: string
  category :: nat

record Genre =
  genre_id :: nat
  genre_name :: string
  slug :: string

record GenreTitle =
  genre :: nat
  title :: nat

record Review = authored +
  review_id :: nat
  review_text :: string
  score :: int
  pub_date :: nat
  review_title :: nat

record database =
  users :: "User list"
  titles :: "Title list"
  genre_titles :: "GenreTitle list"
  reviews :: "Review list"

text \<open>The primary key of a new row: one more than the largest key in the table.\<close>

definition next_id :: "nat list \<Rightarrow> nat" where
  "next_id ids = Suc (fold max ids 0)"

text \<open>
  \<open>get_object_or_404\<close>: the single row that satisfies the lookup; \<open>Http404\<close> when there
  is none.
\<close>

definition get_object_or_404 :: "'a list \<Rightarrow> ('a \<Rightarrow> bool) \<Rightarrow> py_error + 'a" where
  "get_object_or_404 rows P =
     (case filter P rows of
        [] \<Rightarrow> Inl Http404
      | [x] \<Rightarrow> Inr x
      | x # y # zs \<Rightarrow> Inl MultipleObjectsReturned)"

text \<open>
  What a view returns to the client: a status with data, or the response the
  framework's exception handler builds from an exception.
\<close>

datatype 'a response =
    HTTP_200_OK 'a
  | HTTP_201_CREATED 'a
  | HTTP_400_BAD_REQUEST "string list"
  | HTTP_401_UNAUTHORIZED
  | HTTP_403_FORBIDDEN
  | HTTP_404_NOT_FOUND
  | HTTP_500 py_error

fun exception_handler :: "py_error \<Rightarrow> 'a response" where
  "exception_handler (ValidationError keys) = HTTP_400_BAD_REQUEST keys"
| "exception_handler Http404 = HTTP_404_NOT_FOUND"
| "exception_handler e = HTTP_500 e"

fun denied_response :: "access \<Rightarrow> 'a response" where
  "denied_response NotAuthenticated = HTTP_401_UNAUTHORIZED"
| "denied_response a = HTTP_403_FORBIDDEN"

subsection \<open>Serializer fields of the framework\<close>

text \<open>
  \<open>CharField\<close> with the framework's defaults (\<open>allow_blank=False\<close>,
  \<open>trim_whitespace=True\<close>) and an optional \<open>max_length\<close>, on a value that is absent
  from the payload (\<open>None\<close>) or a string: the result is the trimmed string, or the code
  of the first check that failed.
\<close>

definition CharField_run_validation :: "nat option \<Rightarrow> string option \<Rightarrow> string + string" where
  "CharField_run_validation max_length data =
     (case data of
        None \<Rightarrow> Inl ''required''
      | Some s \<Rightarrow>
          if strip s = [] then Inl ''blank''
          else if (case max_length of None \<Rightarrow> False | Some n \<Rightarrow> n < length (strip s))
            then Inl ''max_length''
          else if CHR 0x00 \<in> set (strip s) then Inl ''null_characters_not_allowed''
          else Inr (strip s))"

text \<open>\<open>IntegerField(min_value, max_value)\<close> on an absent value or an integer.\<close>

definition IntegerField_run_validation :: "int \<Rightarrow> int \<Rightarrow> int option \<Rightarrow> string + int" where
  "IntegerField_run_validation min_value max_value data =
     (case data of
        None \<Rightarrow> Inl ''required''
      | Some n \<Rightarrow>
          if max_value < n then Inl ''max_value''
          else if n < min_value then Inl ''min_value''
          else Inr n)"

text \<open>The keys of the fields that failed, in the order of the fields.\<close>

fun failed_keys :: "(string \<times> bool) list \<Rightarrow> string list" where
  "failed_keys [] = []"
| "failed_keys ((k, ok) # fs) = (if ok then failed_keys fs else k # failed_keys fs)"

section \<open>api/serializers.py and api/views.py: titles\<close>

text \<open>
  \<open>validated_data\<close> of \<open>TitleSerializer\<close> on a partial update: each field is present
  or not. The \<open>genre\<close> field is a \<open>SlugRelatedField\<close> with a queryset, so its validated
  value is a list of \<open>Genre\<close> rows.
\<close>

record title_validated_data =
  vd_name :: "string option"
  vd_year :: "int option"
  vd_description :: "string option"
  vd_category :: "nat option"
  vd_genre :: "Genre list option"

text \<open>
  \<open>Genre.objects.get(**genre)\<close>: unpacking with \<open>**\<close> needs a mapping, and a model
  row is not one, so the call raises \<open>TypeError\<close> before the table is read.
\<close>

definition Genre_objects_get_unpacked :: "Genre \<Rightarrow> py_error + Genre" where
  "Genre_objects_get_unpacked g = Inl TypeError"

text \<open>The \<open>setattr\<close> loop over the fields that are left after \<open>genre\<close> is popped.\<close>

definition set_fields :: "Title \<Rightarrow> title_validated_data \<Rightarrow> Title" where
  "set_fields instance vd =
     instance
       \<lparr> name := (case vd_name vd of Some v \<Rightarrow> v | None \<Rightarrow> name instance),
         year := (case vd_year vd of Some v \<Rightarrow> v | None \<Rightarrow> year instance),
         description := (case vd_description vd of Some v \<Rightarrow> v | None \<Rightarrow> description instance),
         category := (case vd_category vd of Some v \<Rightarrow> v | None \<Rightarrow> category instance) \<rparr>"

text \<open>The loop that creates one join row per genre.\<close>

fun create_genre_titles ::
  "Title \<Rightarrow> Genre list \<Rightarrow> GenreTitle list \<Rightarrow> py_error + GenreTitle list" where
  "create_genre_titles instance [] rows = Inr rows"
| "create_genre_titles instance (g # gs) rows =
     (case Genre_objects_get_unpacked g of
        Inl e \<Rightarrow> Inl e
      | Inr current_genre \<Rightarrow>
          create_genre_titles instance gs
            (rows @ [\<lparr>genre = genre_id current_genre, title = title_id instance\<rparr>]))"

text \<open>\<open>instance.save()\<close>: the row with the instance's key is replaced (inserted if absent).\<close>

definition save_title :: "Title \<Rightarrow> Title list \<Rightarrow> Title list" where
  "save_title instance ts =
     (if title_id instance \<in> set (map title_id ts)
      then map (\<lambda>t. if title_id t = title_id instance then instance else t) ts
      else ts @ [instance])"

text \<open>
  \<open>TitleSerializer.update\<close>. The result is the updated instance with the store, or
  the exception raised; what the store holds after an exception depends on the
  transaction settings, which are not among the sources, and is not modelled.
\<close>

definition TitleSerializer_update ::
  "database \<Rightarrow> Title \<Rightarrow> title_validated_data \<Rightarrow> py_error + (Title \<times> database)" where
  "TitleSerializer_update db instance validated_data =
     (let genres = (case vd_genre validated_data of Some gs \<Rightarrow> gs | None \<Rightarrow> []);
          instance' = set_fields instance validated_data;
          remaining = filter (\<lambda>gt. title gt \<noteq> title_id instance') (genre_titles db)
      in case create_genre_titles instance' genres remaining of
           Inl e \<Rightarrow> Inl e
         | Inr rows \<Rightarrow>
             Inr (instance', db\<lparr>titles := save_title instance' (titles db),
                                genre_titles := rows\<rparr>))"

subsection \<open>The rating of a title\<close>

text \<open>
  \<open>Avg('reviews__score')\<close>: the mean of the scores of the reviews that reference the
  title, \<open>None\<close> when there are none. The store computes a floating-point number; the
  model takes the exact quotient.
\<close>

definition Avg :: "int list \<Rightarrow> real option" where
  "Avg xs = (if xs = [] then None else Some (of_int (sum_list xs) / of_nat (length xs)))"

definition reviews__score :: "database \<Rightarrow> Title \<Rightarrow> int list" where
  "reviews__score db t = map score (filter (\<lambda>r. review_title r = title_id t) (reviews db))"

text \<open>
  \<open>rating = serializers.IntegerField()\<close>: a value that is not \<open>None\<close> is represented
  as Python's \<open>int(value)\<close>, which drops the fractional part.
\<close>

definition IntegerField_to_representation :: "real \<Rightarrow> int" where
  "IntegerField_to_representation v = (if 0 \<le> v then \<lfloor>v\<rfloor> else \<lceil>v\<rceil>)"

text \<open>
  What \<open>ReadOnlyTitleSerializer\<close> returns for a title of the annotated queryset (the
  nested genre and category objects are left out).
\<close>

record title_representation =
  rp_id :: nat
  rp_name :: string
  rp_year :: int
  rp_description :: string
  rp_rating :: "int option"

definition ReadOnlyTitleSerializer_to_representation ::
  "database \<Rightarrow> Title \<Rightarrow> title_representation" where
  "ReadOnlyTitleSerializer_to_representation db t =
     \<lparr> rp_id = title_id t, rp_name = name t, rp_year = year t,
       rp_description = description t,
       rp_rating = (case Avg (reviews__score db t) of
                      None \<Rightarrow> None
                    | Some v \<Rightarrow> Some (IntegerField_to_representation v)) \<rparr>"

definition TitleViewSet_list :: "database \<Rightarrow> title_representation list" where
  "TitleViewSet_list db = map (ReadOnlyTitleSerializer_to_representation db) (titles db)"

definition TitleViewSet_retrieve :: "database \<Rightarrow> nat \<Rightarrow> title_representation response" where
  "TitleViewSet_retrieve db pk =
     (case get_object_or_404 (titles db) (\<lambda>t. title_id t = pk) of
        Inl e \<Rightarrow> exception_handler e
      | Inr t \<Rightarrow> HTTP_200_OK (ReadOnlyTitleSerializer_to_representation db t))"


section \<open>api/serializers.py and api/views.py: reviews\<close>

text \<open>The payload of a request that creates a review.\<close>

record review_data =
  rd_text :: "string option"
  rd_score :: "int option"

text \<open>
  \<open>UniqueTogetherValidator(queryset=Review.objects.all(), fields=['author', 'title'])\<close>.
\<close>

definition review_unique_together :: "Review list \<Rightarrow> nat \<Rightarrow> nat \<Rightarrow> bool" where
  "review_unique_together rs a t =
     (filter (\<lambda>r. author r = a \<and> review_title r = t) rs = [])"

text \<open>
  \<open>ReviewSerializer\<close> validating the payload of a create request by the user with key
  \<open>a\<close> on the route of title \<open>title_id\<close>. The writable fields are validated in the
  order \<open>text\<close>, \<open>score\<close>, \<open>title\<close>; the default of the hidden \<open>title\<close> field
  looks the title up and its \<open>Http404\<close> is not a validation error, so it leaves the
  serializer at once. The validator of the pair runs when every field passed.
\<close>

definition ReviewSerializer_is_valid ::
  "database \<Rightarrow> nat \<Rightarrow> nat \<Rightarrow> review_data \<Rightarrow> py_error + (string \<times> int \<times> Title)" where
  "ReviewSerializer_is_valid db a pk data =
     (let text_field = CharField_run_validation None (rd_text data);
          score_field = IntegerField_run_validation 1 10 (rd_score data)
      in case get_object_or_404 (titles db) (\<lambda>t. title_id t = pk) of
           Inl e \<Rightarrow> Inl e
         | Inr t \<Rightarrow>
             (case (text_field, score_field) of
                (Inr txt, Inr sc) \<Rightarrow>
                  if review_unique_together (reviews db) a (title_id t)
                  then Inr (txt, sc, t)
                  else Inl (ValidationError [''non_field_errors''])
              | _ \<Rightarrow>
                  Inl (ValidationError
                    (failed_keys [(''text'', \<not> isl text_field), (''score'', \<not> isl score_field)]))))"

text \<open>
  \<open>ReviewViewSet.perform_create\<close>: the title of the route is looked up again and the
  review is stored with it and with the caller as author. \<open>now\<close> is the clock.
\<close>

definition ReviewViewSet_perform_create ::
  "nat \<Rightarrow> database \<Rightarrow> nat \<Rightarrow> nat \<Rightarrow> string \<times> int \<times> Title \<Rightarrow> py_error + (Review \<times> database)" where
  "ReviewViewSet_perform_create now db a pk validated =
     (case get_object_or_404 (titles db) (\<lambda>t. title_id t = pk) of
        Inl e \<Rightarrow> Inl e
      | Inr t \<Rightarrow>
          (let r = \<lparr> author = a, review_id = next_id (map review_id (reviews db)),
                     review_text = fst validated, score = fst (snd validated),
                     pub_date = now, review_title = title_id t \<rparr>
           in Inr (r, db\<lparr>reviews := reviews db @ [r]\<rparr>)))"

text \<open>
  The create route of \<open>ReviewViewSet\<close>: the view-level permission checks, the
  serializer, \<open>perform_create\<close>. Filtering reviews by an \<open>AnonymousUser\<close> author
  raises \<open>TypeError\<close>.
\<close>

definition ReviewViewSet_create ::
  "nat \<Rightarrow> database \<Rightarrow> request \<Rightarrow> nat \<Rightarrow> review_data \<Rightarrow> Review response \<times> database" where
  "ReviewViewSet_create now db r pk data =
     (case check_permissions r (ReviewViewSet_get_permissions ''create'') of
        Inl e \<Rightarrow> (exception_handler e, db)
      | Inr a \<Rightarrow>
          if a \<noteq> Granted then (denied_response a, db)
          else (case req_user r of
                  AnonymousUser \<Rightarrow> (exception_handler TypeError, db)
                | Authenticated u \<Rightarrow>
                    (case ReviewSerializer_is_valid db (user_id u) pk data of
                       Inl e \<Rightarrow> (exception_handler e, db)
                     | Inr validated \<Rightarrow>
                         (case ReviewViewSet_perform_create now db (user_id u) pk validated of
                            Inl e \<Rightarrow> (exception_handler e, db)
                          | Inr (rv, db') \<Rightarrow> (HTTP_201_CREATED rv, db')))))"

text \<open>The invariant of the review table: at most one review per (author, title) pair.\<close>

definition one_review_per_pair :: "Review list \<Rightarrow> bool" where
  "one_review_per_pair rs = distinct (map (\<lambda>r. (author r, review_title r)) rs)"

section \<open>api/serializers.py and api/views.py: registration\<close>

text \<open>
  \<open>request.data\<close> of a registration request: each of the two keys is present or not.
\<close>

record register_data =
  rq_username :: "string option"
  rq_email :: "string option"

record message =
  subject :: string
  body :: string
  from_email :: string
  recipient_list :: "string list"

text \<open>
  The mail backend: \<open>delivers\<close> tells which messages it accepts during this request
  (it raises on the others), \<open>outbox\<close> lists the messages it has accepted.
\<close>

record mailer =
  delivers :: "message \<Rightarrow> bool"
  outbox :: "message list"

definition send_mail :: "message \<Rightarrow> mailer \<Rightarrow> py_error + mailer" where
  "send_mail msg m =
     (if delivers m msg then Inr (m\<lparr>outbox := outbox m @ [msg]\<rparr>) else Inl SMTPException)"

definition verification_mail :: "string \<Rightarrow> string \<Rightarrow> message" where
  "verification_mail code recipient =
     \<lparr> subject = ''E-mail verification'',
       body = ''Your confirmation_code is '' @ code,
       from_email = ''register@yamdb.ru'',
       recipient_list = [recipient] \<rparr>"

text \<open>
  The body of the \<open>try\<close> in \<open>RegisterViewSet.create\<close>: reading a missing key raises
  \<open>KeyError\<close>, indexing an empty queryset raises \<open>IndexError\<close>.
\<close>

definition resend_confirmation_code ::
  "database \<Rightarrow> mailer \<Rightarrow> register_data \<Rightarrow> py_error + (register_data response \<times> mailer)" where
  "resend_confirmation_code db m data =
     (case rq_username data of
        None \<Rightarrow> Inl KeyError
      | Some u \<Rightarrow>
          (case rq_email data of
             None \<Rightarrow> Inl KeyError
           | Some e \<Rightarrow>
               (case filter (\<lambda>x. username x = u \<and> email x = e) (users db) of
                  [] \<Rightarrow> Inl IndexError
                | found # others \<Rightarrow>
                    (case send_mail (verification_mail (confirmation_code found) e) m of
                       Inl ex \<Rightarrow> Inl ex
                     | Inr m' \<Rightarrow> Inr (HTTP_200_OK data, m')))))"

text \<open>
  \<open>RegisterSerializer.validate_username\<close>.
\<close>

definition validate_username :: "string \<Rightarrow> string + string" where
  "validate_username v = (if v = ''me'' then Inl ''invalid'' else Inr v)"

text \<open>
  The fields \<open>RegisterSerializer\<close> derives from the \<open>User\<close> model: \<open>email\<close> is an
  \<open>EmailField\<close> (at most 254 characters) and \<open>username\<close> a \<open>CharField\<close> of at most
  25 characters; both columns are unique, so each field carries a uniqueness validator.
  \<open>EmailValidator\<close> is the framework's check of the address syntax, a parameter.
\<close>

definition register_email_field ::
  "(string \<Rightarrow> bool) \<Rightarrow> database \<Rightarrow> string option \<Rightarrow> string + string" where
  "register_email_field EmailValidator db data =
     (case CharField_run_validation (Some 254) data of
        Inl c \<Rightarrow> Inl c
      | Inr v \<Rightarrow>
          if \<not> EmailValidator v then Inl ''invalid''
          else if v \<in> set (map email (users db)) then Inl ''unique''
          else Inr v)"

definition register_username_field :: "database \<Rightarrow> string option \<Rightarrow> string + string" where
  "register_username_field db data =
     (case CharField_run_validation (Some 25) data of
        Inl c \<Rightarrow> Inl c
      | Inr v \<Rightarrow>
          if v \<in> set (map username (users db)) then Inl ''unique''
          else validate_username v)"

text \<open>
  \<open>serializer.is_valid(raise_exception=True)\<close> for \<open>RegisterSerializer\<close>: the fields
  in the order of \<open>Meta.fields\<close>, then the \<open>UniqueTogetherValidator\<close> of the pair.
  The result is the validated (email, username).
\<close>

definition RegisterSerializer_is_valid ::
  "(string \<Rightarrow> bool) \<Rightarrow> database \<Rightarrow> register_data \<Rightarrow> py_error + (string \<times> string)" where
  "RegisterSerializer_is_valid EmailValidator db data =
     (case (register_email_field EmailValidator db (rq_email data),
            register_username_field db (rq_username data)) of
        (Inr e, Inr u) \<Rightarrow>
          if filter (\<lambda>x. email x = e \<and> username x = u) (users db) = []
          then Inr (e, u)
          else Inl (ValidationError [''non_field_errors''])
      | (email_field, username_field) \<Rightarrow>
          Inl (ValidationError
            (failed_keys [(''email'', \<not> isl email_field), (''username'', \<not> isl username_field)])))"

text \<open>
  \<open>RegisterViewSet.perform_create\<close>: \<open>code\<close> is the value \<open>str(uuid.uuid4())\<close>
  returns. The row is stored before the mail is sent, so it is in the store also when
  sending raises.
\<close>

definition RegisterViewSet_perform_create ::
  "string \<Rightarrow> database \<Rightarrow> mailer \<Rightarrow> string \<times> string \<Rightarrow> database \<times> (py_error + mailer)" where
  "RegisterViewSet_perform_create code db m validated =
     (let u = \<lparr> user_id = next_id (map user_id (users db)),
                 username = snd validated, email = fst validated, bio = [],
                 role = ''user'', confirmation_code = code, is_superuser = False \<rparr>
      in (db\<lparr>users := users db @ [u]\<rparr>,
          send_mail (verification_mail code (fst validated)) m))"

text \<open>The body of the \<open>except\<close> clause: validate, create, respond.\<close>

definition validate_and_create ::
  "(string \<Rightarrow> bool) \<Rightarrow> string \<Rightarrow> database \<Rightarrow> mailer \<Rightarrow> register_data
     \<Rightarrow> register_data response \<times> database \<times> mailer" where
  "validate_and_create EmailValidator code db m data =
     (case RegisterSerializer_is_valid EmailValidator db data of
        Inl ex \<Rightarrow> (exception_handler ex, db, m)
      | Inr validated \<Rightarrow>
          (case RegisterViewSet_perform_create code db m validated of
             (db', Inl ex) \<Rightarrow> (exception_handler ex, db', m)
           | (db', Inr m') \<Rightarrow>
               (HTTP_200_OK \<lparr>rq_username = Some (snd validated), rq_email = Some (fst validated)\<rparr>,
                db', m')))"

text \<open>
  \<open>RegisterViewSet.create\<close>: every exception of the \<open>try\<close> body is caught by
  \<open>except Exception\<close>, whose body then runs on the unchanged store.
\<close>

definition RegisterViewSet_create ::
  "(string \<Rightarrow> bool) \<Rightarrow> string \<Rightarrow> database \<Rightarrow> mailer \<Rightarrow> register_data
     \<Rightarrow> register_data response \<times> database \<times> mailer" where
  "RegisterViewSet_create EmailValidator code db m data =
     (case resend_confirmation_code db m data of
        Inr (resp, m') \<Rightarrow> (resp, db, m')
      | Inl ex \<Rightarrow> validate_and_create EmailValidator code db m data)"

section \<open>api/serializers.py and api/views.py: tokens\<close>

record token_data =
  td_username :: "string option"
  td_confirmation_code :: "string option"

text \<open>
  The access token \<open>RefreshToken.for_user(user).access_token\<close>: of its claims, the
  model keeps the key of the user it is bound to (signature and expiry are left out).
\<close>

datatype access_token = AccessToken nat

text \<open>\<open>ObtainTokenSerializer.validate\<close>, on the validated fields.\<close>

definition ObtainTokenSerializer_validate ::
  "database \<Rightarrow> string \<times> string \<Rightarrow> py_error + (string \<times> string)" where
  "ObtainTokenSerializer_validate db data =
     (case get_object_or_404 (users db) (\<lambda>x. username x = fst data) of
        Inl e \<Rightarrow> Inl e
      | Inr u \<Rightarrow>
          if snd data \<noteq> confirmation_code u
          then Inl (ValidationError [''non_field_errors''])
          else Inr data)"

text \<open>
  \<open>serializer.is_valid(raise_exception=True)\<close> for \<open>ObtainTokenSerializer\<close>: both
  fields are \<open>CharField(required=True)\<close>; \<open>validate\<close> runs when both passed.
\<close>

definition ObtainTokenSerializer_is_valid ::
  "database \<Rightarrow> token_data \<Rightarrow> py_error + (string \<times> string)" where
  "ObtainTokenSerializer_is_valid db data =
     (case (CharField_run_validation None (td_username data),
            CharField_run_validation None (td_confirmation_code data)) of
        (Inr u, Inr c) \<Rightarrow> ObtainTokenSerializer_validate db (u, c)
      | (username_field, code_field) \<Rightarrow>
          Inl (ValidationError
            (failed_keys [(''username'', \<not> isl username_field),
                          (''confirmation_code'', \<not> isl code_field)])))"

text \<open>\<open>ObtainTokenView.post\<close>; the store is returned as the view leaves it.\<close>

definition ObtainTokenView_post ::
  "database \<Rightarrow> token_data \<Rightarrow> access_token response \<times> database" where
  "ObtainTokenView_post db data =
     (case ObtainTokenSerializer_is_valid db data of
        Inl e \<Rightarrow> (exception_handler e, db)
      | Inr validated \<Rightarrow>
          (case get_object_or_404 (users db) (\<lambda>x. username x = fst validated) of
             Inl e \<Rightarrow> (exception_handler e, db)
           | Inr u \<Rightarrow> (HTTP_200_OK (AccessToken (user_id u)), db)))"


section \<open>Sample data\<close>

definition ann :: User where
  "ann = \<lparr>user_id = 1, username = ''ann'', email = ''ann@example.org'', bio = [],
          role = ''user'', confirmation_code = ''c0de-ann'', is_superuser = False\<rparr>"

definition bob :: User where
  "bob = \<lparr>user_id = 2, username = ''bob'', email = ''bob@example.org'', bio = [],
          role = ''user'', confirmation_code = ''c0de-bob'', is_superuser = False\<rparr>"

definition mia :: User where
  "mia = \<lparr>user_id = 3, username = ''mia'', email = ''mia@example.org'', bio = [],
          role = ''moderator'', confirmation_code = ''c0de-mia'', is_superuser = False\<rparr>"

definition solaris :: Title where
  "solaris = \<lparr>title_id = 1, name = ''Solaris'', year = 1972, description = [], category = 2\<rparr>"

definition sample_db :: database where
  "sample_db =
     \<lparr> users = [ann, bob, mia],
       titles = [solaris],
       genre_titles = [\<lparr>genre = 5, title = 1\<rparr>, \<lparr>genre = 6, title = 1\<rparr>, \<lparr>genre = 5, title = 9\<rparr>],
       reviews = [\<lparr>author = 1, review_id = 1, review_text = ''slow'', score = 7,
                   pub_date = 10, review_title = 1\<rparr>,
                  \<lparr>author = 2, review_id = 2, review_text = ''deep'', score = 8,
                   pub_date = 11, review_title = 1\<rparr>] \<rparr>"

text \<open>
  A mail backend that accepts every message, one that refuses every message, and an
  address check that accepts every address.
\<close>

definition post_office :: mailer where
  "post_office = \<lparr>delivers = (\<lambda>msg. True), outbox = []\<rparr>"

definition dead_office :: mailer where
  "dead_office = \<lparr>delivers = (\<lambda>msg. False), outbox = []\<rparr>"

definition any_address :: "string \<Rightarrow> bool" where
  "any_address a = True"

definition as_caller :: "User \<Rightarrow> http_method \<Rightarrow> request" where
  "as_caller u m = \<lparr>req_user = Authenticated u, req_method = m, authenticators = True\<rparr>"

definition anonymously :: "http_method \<Rightarrow> request" where
  "anonymously m = \<lparr>req_user = AnonymousUser, req_method = m, authenticators = True\<rparr>"

section \<open>Permission predicates\<close>

lemmas sample_defs = sample_db_def ann_def bob_def mia_def solaris_def as_caller_def
  anonymously_def post_office_def dead_office_def any_address_def

lemmas field_defs = CharField_run_validation_def IntegerField_run_validation_def
  strip_def isspace_def

lemmas permission_class_defs =
  IsReadOnly_has_permission_def IsAdmin_has_permission_def IsAdmin_has_object_permission_def
  IsSuperuser_has_permission_def IsSuperuser_has_object_permission_def
  IsModerator_has_permission_def IsModerator_has_object_permission_def
  IsAuthor_has_object_permission_def IsAuthor_has_permission_def
  BasePermission_has_permission_def BasePermission_has_object_permission_def

text \<open>
  Claim C6, as the code has it: the object-level check of \<open>IsAuthor\<close> returns true
  exactly when the caller is an authenticated user whose key is the author of the
  target, and it never raises. The view-level check, which runs without a target,
  is the inherited one and returns true for every request.
\<close>

theorem IsAuthor_predicate:
  "IsAuthor_has_object_permission r obj
     = Inr (\<exists>u. req_user r = Authenticated u \<and> author obj = user_id u)
   \<and> IsAuthor_has_permission r = Inr True"
  by (cases "req_user r") (auto simp: permission_class_defs)

theorem IsAuthor_predicate_witness:
  "IsAuthor_has_object_permission (as_caller ann PATCH) \<lparr>author = 1\<rparr> = Inr True
   \<and> IsAuthor_has_object_permission (as_caller ann PATCH) \<lparr>author = 2\<rparr> = Inr False
   \<and> IsAuthor_has_permission (as_caller ann PATCH) = Inr True"
  using IsAuthor_predicate [of "as_caller ann PATCH" "\<lparr>author = 1\<rparr>"]
    IsAuthor_predicate [of "as_caller ann PATCH" "\<lparr>author = 2\<rparr>"]
  by (simp add: as_caller_def ann_def)

text \<open>
  The claim as stated fails: without a target, \<open>IsAuthor\<close> answers true, not false.
\<close>

theorem IsAuthor_list_level_counterexample:
  "IsAuthor_has_permission (as_caller ann POST) \<noteq> Inr False"
  by (simp add: permission_class_defs)

text \<open>
  Claim C7, as the code has it: for an anonymous caller \<open>IsAdmin\<close>, \<open>IsSuperuser\<close>
  and \<open>IsModerator\<close> return false at the view level and at the object level, and
  \<open>IsAuthor\<close> returns false at the object level; none of them raises. At the view
  level \<open>IsAuthor\<close> returns true.
\<close>

theorem anonymous_predicates:
  "req_user r = AnonymousUser \<Longrightarrow>
     IsAdmin_has_permission r = Inr False
   \<and> IsAdmin_has_object_permission r obj = Inr False
   \<and> IsSuperuser_has_permission r = Inr False
   \<and> IsSuperuser_has_object_permission r obj = Inr False
   \<and> IsModerator_has_permission r = Inr False
   \<and> IsModerator_has_object_permission r obj = Inr False
   \<and> IsAuthor_has_object_permission r obj = Inr False
   \<and> IsAuthor_has_permission r = Inr True"
  by (simp add: permission_class_defs)

theorem anonymous_predicates_witness:
  "req_user (anonymously DELETE) = AnonymousUser
   \<and> IsAdmin_has_permission (anonymously DELETE) = Inr False
   \<and> IsAdmin_has_object_permission (anonymously DELETE) \<lparr>author = 1\<rparr> = Inr False
   \<and> IsSuperuser_has_permission (anonymously DELETE) = Inr False
   \<and> IsSuperuser_has_object_permission (anonymously DELETE) \<lparr>author = 1\<rparr> = Inr False
   \<and> IsModerator_has_permission (anonymously DELETE) = Inr False
   \<and> IsModerator_has_object_permission (anonymously DELETE) \<lparr>author = 1\<rparr> = Inr False
   \<and> IsAuthor_has_object_permission (anonymously DELETE) \<lparr>author = 1\<rparr> = Inr False
   \<and> IsAuthor_has_permission (anonymously DELETE) = Inr True"
proof -
  have h: "req_user (anonymously DELETE) = AnonymousUser"
    by (simp add: anonymously_def)
  from h anonymous_predicates [OF h, of "\<lparr>author = 1\<rparr>"] show ?thesis
    by simp
qed

text \<open>
  The claim as stated fails: for an anonymous caller the view-level check of
  \<open>IsAuthor\<close> is true.
\<close>

theorem anonymous_IsAuthor_counterexample:
  "is_anonymous (req_user (anonymously GET))
   \<and> IsAuthor_has_permission (anonymously GET) = Inr True"
  by (simp add: permission_class_defs anonymously_def)

section \<open>Who may modify a review or a comment\<close>

lemma modify_policy_anonymous:
  assumes "req_user r = AnonymousUser"
  shows "check_detail_route s
           [AND IsAuthenticated (OR (OR (OR IsAuthor IsModerator) IsAdmin) IsSuperuser)] r obj
         = Inr (permission_denied r)"
  using assms by (simp add: check_detail_route_def py_and_def permission_denied_def)

lemma modify_policy_authenticated:
  assumes "req_user r = Authenticated u"
  shows "check_detail_route s
           [AND IsAuthenticated (OR (OR (OR IsAuthor IsModerator) IsAdmin) IsSuperuser)] r obj
         = Inr (if author obj = user_id u \<or> role u = ''moderator'' \<or> role u = ''admin''
                   \<or> is_superuser u
                then Granted else PermissionDenied)"
  using assms
  by (cases s)
     (auto simp: check_detail_route_def py_and_def py_or_def permission_denied_def
                 permission_class_defs)

text \<open>
  Claim C2, as the code has it: on the actions \<open>partial_update\<close> and \<open>destroy\<close> of
  the review and the comment views, whichever way the framework evaluates \<open>OR\<close>, access
  is granted exactly when the caller is authenticated and is the author of the object,
  a moderator, an admin or a superuser; every other authenticated caller is refused with
  \<open>PermissionDenied\<close> (status 403). The action \<open>update\<close> (a full update with PUT) is
  not among the two and gets the policy of the other branch.
\<close>

theorem partial_update_destroy_policy:
  assumes "action \<in> {''partial_update'', ''destroy''}"
  shows "check_detail_route s (ReviewViewSet_get_permissions action) r obj
           = Inr (if spec_may_modify (req_user r) obj then Granted else permission_denied r)
       \<and> check_detail_route s (CommentViewSet_get_permissions action) r obj
           = Inr (if spec_may_modify (req_user r) obj then Granted else permission_denied r)
       \<and> (is_authenticated (req_user r) \<longrightarrow> permission_denied r = PermissionDenied)"
proof (cases "req_user r")
  case AnonymousUser
  with assms show ?thesis
    by (auto simp: ReviewViewSet_get_permissions_def CommentViewSet_get_permissions_def
                   modify_policy_anonymous)
next
  case (Authenticated u)
  with assms show ?thesis
    by (auto simp: ReviewViewSet_get_permissions_def CommentViewSet_get_permissions_def
                   modify_policy_authenticated permission_denied_def)
qed

theorem partial_update_destroy_policy_witness:
  "''destroy'' \<in> {''partial_update'', ''destroy''}
   \<and> check_detail_route ViewThenObject (ReviewViewSet_get_permissions ''destroy'')
        (as_caller mia DELETE) \<lparr>author = 1\<rparr> = Inr Granted
   \<and> check_detail_route ObjectOnly (CommentViewSet_get_permissions ''destroy'')
        (as_caller bob DELETE) \<lparr>author = 1\<rparr> = Inr PermissionDenied
   \<and> check_detail_route ObjectOnly (ReviewViewSet_get_permissions ''destroy'')
        (as_caller ann DELETE) \<lparr>author = 1\<rparr> = Inr Granted"
proof -
  have h: "''destroy'' \<in> {''partial_update'', ''destroy''}" by simp
  show ?thesis
    using h
      partial_update_destroy_policy [OF h, of ViewThenObject "as_caller mia DELETE" "\<lparr>author = 1\<rparr>"]
      partial_update_destroy_policy [OF h, of ObjectOnly "as_caller bob DELETE" "\<lparr>author = 1\<rparr>"]
      partial_update_destroy_policy [OF h, of ObjectOnly "as_caller ann DELETE" "\<lparr>author = 1\<rparr>"]
    by (simp add: as_caller_def ann_def bob_def mia_def permission_denied_def)
qed

text \<open>
  The claim as stated fails on the action \<open>update\<close>. When \<open>OR\<close> asks the object-level
  checks only, bob, who is neither the author nor privileged, may overwrite ann's
  review; when \<open>OR\<close> asks the view-level checks first, the moderator mia may not.
\<close>

theorem full_update_counterexample:
  "check_detail_route ObjectOnly (ReviewViewSet_get_permissions ''update'')
     (as_caller bob PUT) \<lparr>author = 1\<rparr> = Inr Granted
   \<and> spec_may_modify (Authenticated bob) \<lparr>author = 1\<rparr> = False
   \<and> check_detail_route ViewThenObject (ReviewViewSet_get_permissions ''update'')
     (as_caller mia PUT) \<lparr>author = 1\<rparr> = Inr PermissionDenied
   \<and> spec_may_modify (Authenticated mia) \<lparr>author = 1\<rparr> = True"
  by (simp add: ReviewViewSet_get_permissions_def check_detail_route_def py_and_def py_or_def
        permission_denied_def permission_class_defs SAFE_METHODS_def as_caller_def
        bob_def mia_def)

section \<open>Updating a title\<close>

lemma title_id_set_fields: "title_id (set_fields inst vd) = title_id inst"
  by (simp add: set_fields_def)

lemma find_append_new:
  "find P xs = None \<Longrightarrow> P y \<Longrightarrow> find P (xs @ [y]) = Some y"
  by (induction xs) (auto split: if_splits)

lemma find_save_title:
  "find (\<lambda>t. title_id t = title_id inst) (save_title inst ts) = Some inst"
proof (cases "title_id inst \<in> set (map title_id ts)")
  case True
  then show ?thesis
    by (induction ts) (auto simp: save_title_def)
next
  case False
  then have "find (\<lambda>t. title_id t = title_id inst) ts = None"
    by (induction ts) auto
  with False show ?thesis
    by (simp add: save_title_def find_append_new)
qed

text \<open>
  An update whose payload carries a genre list that is not empty stops with
  \<open>TypeError\<close> at the first genre.
\<close>

lemma update_with_genres_raises:
  "vd_genre vd = Some (g # gs) \<Longrightarrow> TitleSerializer_update db inst vd = Inl TypeError"
  by (simp add: TitleSerializer_update_def Let_def Genre_objects_get_unpacked_def)

text \<open>
  Claim C1, as the code has it by design: when the payload of a title update has no
  genre field, or has an empty genre list, the update succeeds, every join row of the
  title is deleted and none is inserted, the join rows of other titles stay, and the
  other fields of the payload are applied to the stored title. (A payload with genres
  is not covered here.)
\<close>

theorem update_without_genres:
  assumes "vd_genre vd = None \<or> vd_genre vd = Some []"
  shows "\<exists>db'. TitleSerializer_update db inst vd = Inr (set_fields inst vd, db')
      \<and> filter (\<lambda>gt. title gt = title_id inst) (genre_titles db') = []
      \<and> filter (\<lambda>gt. title gt \<noteq> title_id inst) (genre_titles db')
          = filter (\<lambda>gt. title gt \<noteq> title_id inst) (genre_titles db)
      \<and> find (\<lambda>t. title_id t = title_id inst) (titles db')
          = Some \<lparr> title_id = title_id inst,
                   name = (case vd_name vd of Some v \<Rightarrow> v | None \<Rightarrow> name inst),
                   year = (case vd_year vd of Some v \<Rightarrow> v | None \<Rightarrow> year inst),
                   description =
                     (case vd_description vd of Some v \<Rightarrow> v | None \<Rightarrow> description inst),
                   category = (case vd_category vd of Some v \<Rightarrow> v | None \<Rightarrow> category inst) \<rparr>
      \<and> users db' = users db \<and> reviews db' = reviews db"
proof -
  let ?inst = "set_fields inst vd"
  let ?rows = "filter (\<lambda>gt. title gt \<noteq> title_id inst) (genre_titles db)"
  let ?db = "db\<lparr>titles := save_title ?inst (titles db), genre_titles := ?rows\<rparr>"
  from assms have genres: "(case vd_genre vd of Some gs \<Rightarrow> gs | None \<Rightarrow> []) = []"
    by auto
  have run: "TitleSerializer_update db inst vd = Inr (?inst, ?db)"
    by (simp add: TitleSerializer_update_def Let_def genres title_id_set_fields)
  have stored: "find (\<lambda>t. title_id t = title_id inst) (titles ?db) = Some ?inst"
    using find_save_title [of ?inst "titles db"] by (simp add: title_id_set_fields)
  have fields: "?inst = \<lparr> title_id = title_id inst,
                   name = (case vd_name vd of Some v \<Rightarrow> v | None \<Rightarrow> name inst),
                   year = (case vd_year vd of Some v \<Rightarrow> v | None \<Rightarrow> year inst),
                   description =
                     (case vd_description vd of Some v \<Rightarrow> v | None \<Rightarrow> description inst),
                   category = (case vd_category vd of Some v \<Rightarrow> v | None \<Rightarrow> category inst) \<rparr>"
    by (simp add: set_fields_def)
  have gone: "filter (\<lambda>gt. title gt = title_id inst) (genre_titles ?db) = []"
    by (simp add: filter_empty_conv)
  show ?thesis
    using run stored gone fields by (intro exI [of _ ?db]) simp
qed

theorem update_without_genres_witness:
  "(vd_genre \<lparr>vd_name = Some ''Solyaris'', vd_year = None, vd_description = None,
      vd_category = None, vd_genre = Some []\<rparr> = None
    \<or> vd_genre \<lparr>vd_name = Some ''Solyaris'', vd_year = None, vd_description = None,
      vd_category = None, vd_genre = Some []\<rparr> = Some [])
   \<and> (\<exists>db'. TitleSerializer_update sample_db solaris
          \<lparr>vd_name = Some ''Solyaris'', vd_year = None, vd_description = None,
           vd_category = None, vd_genre = Some []\<rparr>
          = Inr (solaris\<lparr>name := ''Solyaris''\<rparr>, db')
        \<and> filter (\<lambda>gt. title gt = 1) (genre_titles db') = []
        \<and> filter (\<lambda>gt. title gt \<noteq> 1) (genre_titles db') = [\<lparr>genre = 5, title = 9\<rparr>]
        \<and> find (\<lambda>t. title_id t = 1) (titles db')
            = Some \<lparr>title_id = 1, name = ''Solyaris'', year = 1972, description = [],
                    category = 2\<rparr>)"
proof -
  let ?vd = "\<lparr>vd_name = Some ''Solyaris'', vd_year = None, vd_description = None,
      vd_category = None, vd_genre = Some []\<rparr>"
  have h: "vd_genre ?vd = None \<or> vd_genre ?vd = Some []" by simp
  from update_without_genres [OF h, of sample_db solaris]
  obtain db' where
    "TitleSerializer_update sample_db solaris ?vd = Inr (set_fields solaris ?vd, db')
      \<and> filter (\<lambda>gt. title gt = title_id solaris) (genre_titles db') = []
      \<and> filter (\<lambda>gt. title gt \<noteq> title_id solaris) (genre_titles db')
          = filter (\<lambda>gt. title gt \<noteq> title_id solaris) (genre_titles sample_db)
      \<and> find (\<lambda>t. title_id t = title_id solaris) (titles db')
          = Some \<lparr> title_id = title_id solaris,
                   name = (case vd_name ?vd of Some v \<Rightarrow> v | None \<Rightarrow> name solaris),
                   year = (case vd_year ?vd of Some v \<Rightarrow> v | None \<Rightarrow> year solaris),
                   description =
                     (case vd_description ?vd of Some v \<Rightarrow> v | None \<Rightarrow> description solaris),
                   category =
                     (case vd_category ?vd of Some v \<Rightarrow> v | None \<Rightarrow> category solaris) \<rparr>
      \<and> users db' = users sample_db \<and> reviews db' = reviews sample_db"
    by blast
  then have "TitleSerializer_update sample_db solaris ?vd
          = Inr (solaris\<lparr>name := ''Solyaris''\<rparr>, db')
        \<and> filter (\<lambda>gt. title gt = 1) (genre_titles db') = []
        \<and> filter (\<lambda>gt. title gt \<noteq> 1) (genre_titles db') = [\<lparr>genre = 5, title = 9\<rparr>]
        \<and> find (\<lambda>t. title_id t = 1) (titles db')
            = Some \<lparr>title_id = 1, name = ''Solyaris'', year = 1972, description = [],
                    category = 2\<rparr>"
    by (simp add: set_fields_def sample_db_def solaris_def)
  with h show ?thesis by blast
qed

text \<open>
  The claim as stated fails: a payload that changes the name only and has no genre
  field deletes both join rows of the title.
\<close>

theorem update_omitting_genre_counterexample:
  "TitleSerializer_update sample_db solaris
     \<lparr>vd_name = Some ''Solyaris'', vd_year = None, vd_description = None,
      vd_category = None, vd_genre = None\<rparr>
   = Inr (solaris\<lparr>name := ''Solyaris''\<rparr>,
          sample_db\<lparr>titles := [solaris\<lparr>name := ''Solyaris''\<rparr>],
                    genre_titles := [\<lparr>genre = 5, title = 9\<rparr>]\<rparr>)
   \<and> filter (\<lambda>gt. title gt = title_id solaris) (genre_titles sample_db)
       = [\<lparr>genre = 5, title = 1\<rparr>, \<lparr>genre = 6, title = 1\<rparr>]"
  by (simp add: TitleSerializer_update_def Let_def set_fields_def save_title_def
        sample_db_def solaris_def)

section \<open>The rating of a title in list and detail responses\<close>

lemma truncation_bounds:
  "\<bar>real_of_int (IntegerField_to_representation v)\<bar> \<le> \<bar>v\<bar>
   \<and> \<bar>v - real_of_int (IntegerField_to_representation v)\<bar> < 1"
proof (cases "0 \<le> v")
  case True
  then have eq: "IntegerField_to_representation v = \<lfloor>v\<rfloor>"
    by (simp add: IntegerField_to_representation_def)
  have below: "real_of_int \<lfloor>v\<rfloor> \<le> v" and above: "v < real_of_int \<lfloor>v\<rfloor> + 1"
    by linarith+
  from True have "0 \<le> real_of_int \<lfloor>v\<rfloor>" by simp
  with below True have "\<bar>real_of_int \<lfloor>v\<rfloor>\<bar> \<le> \<bar>v\<bar>" by linarith
  moreover from below above have "\<bar>v - real_of_int \<lfloor>v\<rfloor>\<bar> < 1" by linarith
  ultimately show ?thesis unfolding eq by blast
next
  case False
  then have eq: "IntegerField_to_representation v = \<lceil>v\<rceil>"
    by (simp add: IntegerField_to_representation_def)
  have above: "v \<le> real_of_int \<lceil>v\<rceil>" and below: "real_of_int \<lceil>v\<rceil> < v + 1"
    by linarith+
  from False have "real_of_int \<lceil>v\<rceil> \<le> 0" by (simp add: ceiling_le_iff)
  with above False have "\<bar>real_of_int \<lceil>v\<rceil>\<bar> \<le> \<bar>v\<bar>" by linarith
  moreover from below above have "\<bar>v - real_of_int \<lceil>v\<rceil>\<bar> < 1" by linarith
  ultimately show ?thesis unfolding eq by blast
qed

text \<open>
  The list and the detail response of the title view are built from
  \<open>ReadOnlyTitleSerializer\<close>.
\<close>

lemma title_views_representation:
  "TitleViewSet_list db = map (ReadOnlyTitleSerializer_to_representation db) (titles db)"
  "filter (\<lambda>t. title_id t = pk) (titles db) = [t] \<Longrightarrow>
     TitleViewSet_retrieve db pk = HTTP_200_OK (ReadOnlyTitleSerializer_to_representation db t)"
  by (simp_all add: TitleViewSet_list_def TitleViewSet_retrieve_def get_object_or_404_def)

text \<open>
  Claim C3, as the code has it: a title without reviews is reported with the rating
  null; a title with reviews is reported with the mean of their scores truncated to an
  integer, that is with the integer \<open>k\<close> that is no larger in absolute value than the
  mean and less than one away from it.
\<close>

theorem reported_rating:
  "(reviews__score db t = []
      \<longrightarrow> rp_rating (ReadOnlyTitleSerializer_to_representation db t) = None)
 \<and> (reviews__score db t \<noteq> []
      \<longrightarrow> (\<exists>k. rp_rating (ReadOnlyTitleSerializer_to_representation db t) = Some k
             \<and> \<bar>real_of_int k\<bar>
                 \<le> \<bar>real_of_int (sum_list (reviews__score db t))
                      / real (length (reviews__score db t))\<bar>
             \<and> \<bar>real_of_int (sum_list (reviews__score db t))
                  / real (length (reviews__score db t)) - real_of_int k\<bar> < 1))"
proof (cases "reviews__score db t = []")
  case True
  then show ?thesis
    by (simp add: ReadOnlyTitleSerializer_to_representation_def Avg_def)
next
  case False
  let ?mean = "real_of_int (sum_list (reviews__score db t)) / real (length (reviews__score db t))"
  from False
  have "rp_rating (ReadOnlyTitleSerializer_to_representation db t)
          = Some (IntegerField_to_representation ?mean)"
    by (simp add: ReadOnlyTitleSerializer_to_representation_def Avg_def)
  with False truncation_bounds [of ?mean] show ?thesis
    by blast
qed

theorem reported_rating_witness:
  "reviews__score sample_db solaris \<noteq> []
   \<and> rp_rating (ReadOnlyTitleSerializer_to_representation sample_db solaris) = Some 7
   \<and> reviews__score sample_db (solaris\<lparr>title_id := 2\<rparr>) = []
   \<and> rp_rating (ReadOnlyTitleSerializer_to_representation sample_db (solaris\<lparr>title_id := 2\<rparr>))
       = None"
proof -
  have s: "reviews__score sample_db solaris = [7, 8]"
    by (simp add: reviews__score_def sample_db_def solaris_def)
  have e: "reviews__score sample_db (solaris\<lparr>title_id := 2\<rparr>) = []"
    by (simp add: reviews__score_def sample_db_def solaris_def)
  from reported_rating [of sample_db solaris] s
  obtain k where k: "rp_rating (ReadOnlyTitleSerializer_to_representation sample_db solaris) = Some k"
    and lo: "\<bar>real_of_int k\<bar> \<le> \<bar>15 / 2\<bar>" and hi: "\<bar>15 / 2 - real_of_int k\<bar> < 1"
    by auto
  from lo hi have "k = 7" by (simp add: abs_if split: if_splits)
  with k s e reported_rating [of sample_db "solaris\<lparr>title_id := 2\<rparr>"] show ?thesis
    by simp
qed

text \<open>
  The claim as stated fails: with the scores 7 and 8 the mean is 15/2 and the reported
  rating is 7.
\<close>

theorem rating_not_mean_counterexample:
  "rp_rating (ReadOnlyTitleSerializer_to_representation sample_db solaris) = Some 7
   \<and> reviews__score sample_db solaris = [7, 8]
   \<and> Avg (reviews__score sample_db solaris) = Some (15 / 2)"
  by (simp add: ReadOnlyTitleSerializer_to_representation_def Avg_def reviews__score_def
        IntegerField_to_representation_def sample_db_def solaris_def)


section \<open>Creating a review\<close>

lemma create_permission_authenticated:
  "req_user r = Authenticated u \<Longrightarrow>
   check_permissions r (ReviewViewSet_get_permissions ''create'') = Inr Granted"
  by (simp add: ReviewViewSet_get_permissions_def py_and_def py_or_def permission_class_defs)

lemma get_object_or_404_single:
  "filter P rows = [x] \<Longrightarrow> get_object_or_404 rows P = Inr x"
  by (simp add: get_object_or_404_def)

lemma exception_handler_ValidationError:
  "exception_handler (ValidationError ks) = HTTP_400_BAD_REQUEST ks"
  by simp

lemma ReviewSerializer_duplicate:
  assumes "filter (\<lambda>t. title_id t = pk) (titles db) = [t]"
    and "\<not> review_unique_together (reviews db) a pk"
  shows "\<exists>ks. ReviewSerializer_is_valid db a pk data = Inl (ValidationError ks)"
proof -
  from assms(1) have "t \<in> set (filter (\<lambda>t. title_id t = pk) (titles db))" by simp
  then have pk: "title_id t = pk" by simp
  show ?thesis
    using assms(2) pk
    by (auto simp: ReviewSerializer_is_valid_def Let_def get_object_or_404_single [OF assms(1)]
             split: sum.splits)
qed

lemma ReviewSerializer_valid:
  assumes "filter (\<lambda>t. title_id t = pk) (titles db) = [t]"
    and "review_unique_together (reviews db) a pk"
    and "CharField_run_validation None (rd_text data) = Inr txt"
    and "IntegerField_run_validation 1 10 (rd_score data) = Inr sc"
  shows "ReviewSerializer_is_valid db a pk data = Inr (txt, sc, t)"
proof -
  from assms(1) have "t \<in> set (filter (\<lambda>t. title_id t = pk) (titles db))" by simp
  then have pk: "title_id t = pk" by simp
  show ?thesis
    using assms(2-4) pk
    by (simp add: ReviewSerializer_is_valid_def Let_def get_object_or_404_single [OF assms(1)])
qed

lemma ReviewSerializer_Inr_unique:
  "ReviewSerializer_is_valid db a pk data = Inr v \<Longrightarrow>
     review_unique_together (reviews db) a (title_id (snd (snd v)))
     \<and> get_object_or_404 (titles db) (\<lambda>t. title_id t = pk) = Inr (snd (snd v))"
  by (auto simp: ReviewSerializer_is_valid_def Let_def split: sum.splits if_splits)

lemma unique_together_fresh_pair:
  "review_unique_together rs a t \<Longrightarrow> (a, t) \<notin> set (map (\<lambda>r. (author r, review_title r)) rs)"
  by (auto simp: review_unique_together_def filter_empty_conv)

lemma ReviewViewSet_create_cases:
  "ReviewViewSet_create now db r pk data = (resp, db') \<Longrightarrow>
     db' = db
     \<or> (\<exists>rv. db' = db\<lparr>reviews := reviews db @ [rv]\<rparr>
            \<and> review_unique_together (reviews db) (author rv) (review_title rv))"
  by (auto simp: ReviewViewSet_create_def ReviewViewSet_perform_create_def Let_def
           split: sum.splits if_splits caller.splits prod.splits
           dest!: ReviewSerializer_Inr_unique)

text \<open>
  Claim C8: there is at most one review per (author, title) pair. Creating a review
  keeps the invariant; a create request by an author who already has a review on the
  title fails validation and leaves the store unchanged; a create request by an author
  who has none on the title succeeds and stores the review, whatever other authors
  have reviewed the title, when the text and the score pass their field checks.
\<close>

theorem one_review_per_author_and_title:
  "(one_review_per_pair (reviews db)
      \<longrightarrow> one_review_per_pair (reviews (snd (ReviewViewSet_create now db r pk data))))
 \<and> (req_user r = Authenticated u
      \<and> filter (\<lambda>t. title_id t = pk) (titles db) = [t]
      \<and> (\<exists>x \<in> set (reviews db). author x = user_id u \<and> review_title x = pk)
      \<longrightarrow> (\<exists>ks. ReviewViewSet_create now db r pk data = (HTTP_400_BAD_REQUEST ks, db)))
 \<and> (req_user r = Authenticated u
      \<and> filter (\<lambda>t. title_id t = pk) (titles db) = [t]
      \<and> (\<forall>x \<in> set (reviews db). author x = user_id u \<longrightarrow> review_title x \<noteq> pk)
      \<and> CharField_run_validation None (rd_text data) = Inr txt
      \<and> rd_score data = Some sc \<and> 1 \<le> sc \<and> sc \<le> 10
      \<longrightarrow> ReviewViewSet_create now db r pk data
            = (HTTP_201_CREATED
                 \<lparr>author = user_id u, review_id = next_id (map review_id (reviews db)),
                  review_text = txt, score = sc, pub_date = now, review_title = pk\<rparr>,
               db\<lparr>reviews := reviews db
                    @ [\<lparr>author = user_id u, review_id = next_id (map review_id (reviews db)),
                        review_text = txt, score = sc, pub_date = now, review_title = pk\<rparr>]\<rparr>))"
proof (intro conjI impI)
  assume inv: "one_review_per_pair (reviews db)"
  obtain resp db' where run: "ReviewViewSet_create now db r pk data = (resp, db')"
    by (cases "ReviewViewSet_create now db r pk data")
  from ReviewViewSet_create_cases [OF run] inv
  have "one_review_per_pair (reviews db')"
    by (auto simp: one_review_per_pair_def dest: unique_together_fresh_pair)
  with run show "one_review_per_pair (reviews (snd (ReviewViewSet_create now db r pk data)))"
    by simp
next
  assume a: "req_user r = Authenticated u
      \<and> filter (\<lambda>t. title_id t = pk) (titles db) = [t]
      \<and> (\<exists>x \<in> set (reviews db). author x = user_id u \<and> review_title x = pk)"
  then have "\<not> review_unique_together (reviews db) (user_id u) pk"
    by (auto simp: review_unique_together_def filter_empty_conv)
  with a obtain ks where
    "ReviewSerializer_is_valid db (user_id u) pk data = Inl (ValidationError ks)"
    using ReviewSerializer_duplicate by blast
  with a show "\<exists>ks. ReviewViewSet_create now db r pk data = (HTTP_400_BAD_REQUEST ks, db)"
    by (simp add: ReviewViewSet_create_def create_permission_authenticated)
next
  assume a: "req_user r = Authenticated u
      \<and> filter (\<lambda>t. title_id t = pk) (titles db) = [t]
      \<and> (\<forall>x \<in> set (reviews db). author x = user_id u \<longrightarrow> review_title x \<noteq> pk)
      \<and> CharField_run_validation None (rd_text data) = Inr txt
      \<and> rd_score data = Some sc \<and> 1 \<le> sc \<and> sc \<le> 10"
  then have t: "filter (\<lambda>t. title_id t = pk) (titles db) = [t]" by blast
  then have "t \<in> set (filter (\<lambda>t. title_id t = pk) (titles db))" by simp
  then have pk: "title_id t = pk" by simp
  from a have uniq: "review_unique_together (reviews db) (user_id u) pk"
    by (auto simp: review_unique_together_def filter_empty_conv)
  from a have sc: "IntegerField_run_validation 1 10 (rd_score data) = Inr sc"
    by (simp add: IntegerField_run_validation_def)
  from a have tx: "CharField_run_validation None (rd_text data) = Inr txt" by blast
  have "ReviewSerializer_is_valid db (user_id u) pk data = Inr (txt, sc, t)"
    by (rule ReviewSerializer_valid [OF t uniq tx sc])
  with a pk show "ReviewViewSet_create now db r pk data
            = (HTTP_201_CREATED
                 \<lparr>author = user_id u, review_id = next_id (map review_id (reviews db)),
                  review_text = txt, score = sc, pub_date = now, review_title = pk\<rparr>,
               db\<lparr>reviews := reviews db
                    @ [\<lparr>author = user_id u, review_id = next_id (map review_id (reviews db)),
                        review_text = txt, score = sc, pub_date = now, review_title = pk\<rparr>]\<rparr>)"
    by (simp add: ReviewViewSet_create_def create_permission_authenticated
          ReviewViewSet_perform_create_def Let_def get_object_or_404_single [OF t])
qed

theorem one_review_per_author_and_title_witness:
  "one_review_per_pair (reviews sample_db)
   \<and> one_review_per_pair (reviews (snd (ReviewViewSet_create 12 sample_db (as_caller mia POST) 1
        \<lparr>rd_text = Some ''fine'', rd_score = Some 9\<rparr>)))
   \<and> (\<exists>ks. ReviewViewSet_create 12 sample_db (as_caller bob POST) 1
              \<lparr>rd_text = Some ''fine'', rd_score = Some 9\<rparr>
            = (HTTP_400_BAD_REQUEST ks, sample_db))
   \<and> ReviewViewSet_create 12 sample_db (as_caller mia POST) 1
        \<lparr>rd_text = Some ''fine'', rd_score = Some 9\<rparr>
      = (HTTP_201_CREATED
           \<lparr>author = 3, review_id = 3, review_text = ''fine'', score = 9, pub_date = 12,
            review_title = 1\<rparr>,
         sample_db\<lparr>reviews := reviews sample_db
           @ [\<lparr>author = 3, review_id = 3, review_text = ''fine'', score = 9, pub_date = 12,
               review_title = 1\<rparr>]\<rparr>)"
proof -
  let ?data = "\<lparr>rd_text = Some ''fine'', rd_score = Some 9\<rparr>"
  have inv: "one_review_per_pair (reviews sample_db)"
    by (simp add: one_review_per_pair_def sample_defs)
  have tf: "CharField_run_validation None (rd_text ?data) = Inr ''fine''"
    by (simp add: field_defs)
  have 1: "one_review_per_pair (reviews (snd (ReviewViewSet_create 12 sample_db
             (as_caller mia POST) 1 ?data)))"
    using inv one_review_per_author_and_title [of sample_db 12 "as_caller mia POST" 1 ?data]
    by blast
  have 2: "\<exists>ks. ReviewViewSet_create 12 sample_db (as_caller bob POST) 1 ?data
            = (HTTP_400_BAD_REQUEST ks, sample_db)"
    using one_review_per_author_and_title [of sample_db 12 "as_caller bob POST" 1 ?data
        bob solaris]
    by (simp add: sample_defs)
  have 3: "ReviewViewSet_create 12 sample_db (as_caller mia POST) 1 ?data
      = (HTTP_201_CREATED
           \<lparr>author = 3, review_id = 3, review_text = ''fine'', score = 9, pub_date = 12,
            review_title = 1\<rparr>,
         sample_db\<lparr>reviews := reviews sample_db
           @ [\<lparr>author = 3, review_id = 3, review_text = ''fine'', score = 9, pub_date = 12,
               review_title = 1\<rparr>]\<rparr>)"
    using tf one_review_per_author_and_title [of sample_db 12 "as_caller mia POST" 1 ?data
        mia solaris "''fine''" 9]
    by (simp add: sample_defs next_id_def)
  show ?thesis
    by (intro conjI) (rule inv 1 2 3)+
qed

section \<open>Registration\<close>

lemma resend_ok:
  assumes "rq_username d = Some u" and "rq_email d = Some e"
    and "filter (\<lambda>x. username x = u \<and> email x = e) (users db) = found # others"
    and "delivers m (verification_mail (confirmation_code found) e)"
  shows "resend_confirmation_code db m d
           = Inr (HTTP_200_OK d, m\<lparr>outbox := outbox m @ [verification_mail (confirmation_code found) e]\<rparr>)"
  using assms by (simp add: resend_confirmation_code_def send_mail_def)

lemma resend_no_match:
  assumes "rq_username d = Some u" and "rq_email d = Some e"
    and "filter (\<lambda>x. username x = u \<and> email x = e) (users db) = []"
  shows "resend_confirmation_code db m d = Inl IndexError"
  using assms by (simp add: resend_confirmation_code_def)

lemma username_field_taken:
  "strip u \<in> set (map username (users db)) \<Longrightarrow> isl (register_username_field db (Some u))"
  by (simp add: register_username_field_def CharField_run_validation_def)

lemma email_field_taken:
  "strip e \<in> set (map email (users db)) \<Longrightarrow> isl (register_email_field EV db (Some e))"
  by (simp add: register_email_field_def CharField_run_validation_def)

lemma is_valid_field_failure:
  assumes "isl (register_email_field EV db (rq_email d))
           \<or> isl (register_username_field db (rq_username d))"
  shows "\<exists>ks. ks \<noteq> [] \<and> RegisterSerializer_is_valid EV db d = Inl (ValidationError ks)"
  using assms
  by (cases "register_email_field EV db (rq_email d)";
      cases "register_username_field db (rq_username d)")
     (auto simp: RegisterSerializer_is_valid_def)

lemma username_field_ok:
  assumes "strip u \<noteq> []" and "length (strip u) \<le> 25" and "CHR 0x00 \<notin> set (strip u)"
    and "strip u \<noteq> ''me''" and "strip u \<notin> set (map username (users db))"
  shows "register_username_field db (Some u) = Inr (strip u)"
  using assms
  by (simp add: register_username_field_def CharField_run_validation_def validate_username_def)

lemma email_field_ok:
  assumes "strip e \<noteq> []" and "length (strip e) \<le> 254" and "CHR 0x00 \<notin> set (strip e)"
    and "EV (strip e)" and "strip e \<notin> set (map email (users db))"
  shows "register_email_field EV db (Some e) = Inr (strip e)"
  using assms
  by (simp add: register_email_field_def CharField_run_validation_def)

lemma filter_empty_if_no_email:
  "e \<notin> set (map email us) \<Longrightarrow> filter (\<lambda>x. email x = e \<and> username x = u) us = []"
  by (auto simp: filter_empty_conv)

text \<open>
  Claim C4, as the code has it. If a user has exactly the submitted username and email
  and the mail is delivered, no row is created, the stored confirmation code is sent to
  the submitted address and the response is 200 with the submitted data. If no user
  has the submitted pair but the username or the email, trimmed of surrounding
  whitespace, belongs to a user, the request fails with a validation error and the
  store is unchanged. If neither belongs to a user, the trimmed values pass the field
  checks (not blank, within the length limit, a valid address, a username other than
  \<open>me\<close>) and the mail is delivered, a user with the fresh code and the role \<open>user\<close>
  is created, the code is sent to the address and the response is 200.
\<close>

theorem registration_cases:
  "(rq_username d = Some u \<and> rq_email d = Some e
      \<and> filter (\<lambda>x. username x = u \<and> email x = e) (users db) = found # others
      \<and> delivers m (verification_mail (confirmation_code found) e)
    \<longrightarrow> RegisterViewSet_create EV code db m d
          = (HTTP_200_OK d, db,
             m\<lparr>outbox := outbox m @ [verification_mail (confirmation_code found) e]\<rparr>))
 \<and> (rq_username d = Some u \<and> rq_email d = Some e
      \<and> filter (\<lambda>x. username x = u \<and> email x = e) (users db) = []
      \<and> (strip u \<in> set (map username (users db)) \<or> strip e \<in> set (map email (users db)))
    \<longrightarrow> (\<exists>ks. ks \<noteq> []
           \<and> RegisterViewSet_create EV code db m d = (HTTP_400_BAD_REQUEST ks, db, m)))
 \<and> (rq_username d = Some u \<and> rq_email d = Some e
      \<and> filter (\<lambda>x. username x = u \<and> email x = e) (users db) = []
      \<and> strip u \<notin> set (map username (users db)) \<and> strip e \<notin> set (map email (users db))
      \<and> strip u \<noteq> [] \<and> length (strip u) \<le> 25 \<and> CHR 0x00 \<notin> set (strip u)
      \<and> strip u \<noteq> ''me''
      \<and> strip e \<noteq> [] \<and> length (strip e) \<le> 254 \<and> CHR 0x00 \<notin> set (strip e)
      \<and> EV (strip e)
      \<and> delivers m (verification_mail code (strip e))
    \<longrightarrow> RegisterViewSet_create EV code db m d
          = (HTTP_200_OK \<lparr>rq_username = Some (strip u), rq_email = Some (strip e)\<rparr>,
             db\<lparr>users := users db
                  @ [\<lparr>user_id = next_id (map user_id (users db)), username = strip u,
                      email = strip e, bio = [], role = ''user'',
                      confirmation_code = code, is_superuser = False\<rparr>]\<rparr>,
             m\<lparr>outbox := outbox m @ [verification_mail code (strip e)]\<rparr>))"
proof (intro conjI impI)
  assume a: "rq_username d = Some u \<and> rq_email d = Some e
      \<and> filter (\<lambda>x. username x = u \<and> email x = e) (users db) = found # others
      \<and> delivers m (verification_mail (confirmation_code found) e)"
  then have "resend_confirmation_code db m d
           = Inr (HTTP_200_OK d, m\<lparr>outbox := outbox m @ [verification_mail (confirmation_code found) e]\<rparr>)"
    by (intro resend_ok) blast+
  then show "RegisterViewSet_create EV code db m d
          = (HTTP_200_OK d, db,
             m\<lparr>outbox := outbox m @ [verification_mail (confirmation_code found) e]\<rparr>)"
    by (simp add: RegisterViewSet_create_def)
next
  assume a: "rq_username d = Some u \<and> rq_email d = Some e
      \<and> filter (\<lambda>x. username x = u \<and> email x = e) (users db) = []
      \<and> (strip u \<in> set (map username (users db)) \<or> strip e \<in> set (map email (users db)))"
  then have fall: "RegisterViewSet_create EV code db m d = validate_and_create EV code db m d"
    by (simp add: RegisterViewSet_create_def resend_no_match)
  from a have "isl (register_email_field EV db (rq_email d))
           \<or> isl (register_username_field db (rq_username d))"
    using username_field_taken email_field_taken by auto
  from is_valid_field_failure [OF this]
  obtain ks where "ks \<noteq> []" and "RegisterSerializer_is_valid EV db d = Inl (ValidationError ks)"
    by blast
  with fall show "\<exists>ks. ks \<noteq> []
           \<and> RegisterViewSet_create EV code db m d = (HTTP_400_BAD_REQUEST ks, db, m)"
    by (simp add: validate_and_create_def)
next
  assume a: "rq_username d = Some u \<and> rq_email d = Some e
      \<and> filter (\<lambda>x. username x = u \<and> email x = e) (users db) = []
      \<and> strip u \<notin> set (map username (users db)) \<and> strip e \<notin> set (map email (users db))
      \<and> strip u \<noteq> [] \<and> length (strip u) \<le> 25 \<and> CHR 0x00 \<notin> set (strip u)
      \<and> strip u \<noteq> ''me''
      \<and> strip e \<noteq> [] \<and> length (strip e) \<le> 254 \<and> CHR 0x00 \<notin> set (strip e)
      \<and> EV (strip e)
      \<and> delivers m (verification_mail code (strip e))"
  then have fall: "RegisterViewSet_create EV code db m d = validate_and_create EV code db m d"
    by (simp add: RegisterViewSet_create_def resend_no_match)
  from a have uf: "register_username_field db (rq_username d) = Inr (strip u)"
    by (simp add: username_field_ok)
  from a have ef: "register_email_field EV db (rq_email d) = Inr (strip e)"
    by (simp add: email_field_ok)
  from a have "filter (\<lambda>x. email x = strip e \<and> username x = strip u) (users db) = []"
    by (intro filter_empty_if_no_email) blast
  with uf ef have "RegisterSerializer_is_valid EV db d = Inr (strip e, strip u)"
    by (simp add: RegisterSerializer_is_valid_def)
  with fall a show "RegisterViewSet_create EV code db m d
          = (HTTP_200_OK \<lparr>rq_username = Some (strip u), rq_email = Some (strip e)\<rparr>,
             db\<lparr>users := users db
                  @ [\<lparr>user_id = next_id (map user_id (users db)), username = strip u,
                      email = strip e, bio = [], role = ''user'',
                      confirmation_code = code, is_superuser = False\<rparr>]\<rparr>,
             m\<lparr>outbox := outbox m @ [verification_mail code (strip e)]\<rparr>)"
    by (simp add: validate_and_create_def RegisterViewSet_perform_create_def Let_def send_mail_def)
qed

theorem registration_cases_witness:
  "RegisterViewSet_create any_address ''fresh-c0de'' sample_db post_office
     \<lparr>rq_username = Some ''bob'', rq_email = Some ''bob@example.org''\<rparr>
   = (HTTP_200_OK \<lparr>rq_username = Some ''bob'', rq_email = Some ''bob@example.org''\<rparr>,
      sample_db,
      post_office\<lparr>outbox := [verification_mail ''c0de-bob'' ''bob@example.org'']\<rparr>)
   \<and> (\<exists>ks. ks \<noteq> []
        \<and> RegisterViewSet_create any_address ''fresh-c0de'' sample_db post_office
             \<lparr>rq_username = Some ''bob'', rq_email = Some ''rob@example.org''\<rparr>
           = (HTTP_400_BAD_REQUEST ks, sample_db, post_office))
   \<and> RegisterViewSet_create any_address ''fresh-c0de'' sample_db post_office
        \<lparr>rq_username = Some '' eve'', rq_email = Some ''eve@example.org ''\<rparr>
      = (HTTP_200_OK \<lparr>rq_username = Some ''eve'', rq_email = Some ''eve@example.org''\<rparr>,
         sample_db\<lparr>users := [ann, bob, mia,
            \<lparr>user_id = 4, username = ''eve'', email = ''eve@example.org'', bio = [],
             role = ''user'', confirmation_code = ''fresh-c0de'', is_superuser = False\<rparr>]\<rparr>,
         post_office\<lparr>outbox := [verification_mail ''fresh-c0de'' ''eve@example.org'']\<rparr>)"
proof -
  let ?exact = "\<lparr>rq_username = Some ''bob'', rq_email = Some ''bob@example.org''\<rparr>"
  let ?partial = "\<lparr>rq_username = Some ''bob'', rq_email = Some ''rob@example.org''\<rparr>"
  let ?new = "\<lparr>rq_username = Some '' eve'', rq_email = Some ''eve@example.org ''\<rparr>"
  have se: "strip '' eve'' = ''eve''" "strip ''eve@example.org '' = ''eve@example.org''"
    "strip ''bob'' = ''bob''" "strip ''rob@example.org'' = ''rob@example.org''"
    by (simp_all add: strip_def isspace_def)
  have 1: "RegisterViewSet_create any_address ''fresh-c0de'' sample_db post_office ?exact
   = (HTTP_200_OK ?exact, sample_db,
      post_office\<lparr>outbox := [verification_mail ''c0de-bob'' ''bob@example.org'']\<rparr>)"
    using registration_cases [of ?exact "''bob''" "''bob@example.org''" sample_db bob "[]"
        post_office any_address "''fresh-c0de''"]
    by (simp add: sample_defs)
  have 2: "\<exists>ks. ks \<noteq> []
        \<and> RegisterViewSet_create any_address ''fresh-c0de'' sample_db post_office ?partial
           = (HTTP_400_BAD_REQUEST ks, sample_db, post_office)"
    using registration_cases [of ?partial "''bob''" "''rob@example.org''" sample_db bob "[]"
        post_office any_address "''fresh-c0de''"]
    by (simp add: sample_defs se)
  have 3: "RegisterViewSet_create any_address ''fresh-c0de'' sample_db post_office ?new
      = (HTTP_200_OK \<lparr>rq_username = Some ''eve'', rq_email = Some ''eve@example.org''\<rparr>,
         sample_db\<lparr>users := [ann, bob, mia,
            \<lparr>user_id = 4, username = ''eve'', email = ''eve@example.org'', bio = [],
             role = ''user'', confirmation_code = ''fresh-c0de'', is_superuser = False\<rparr>]\<rparr>,
         post_office\<lparr>outbox := [verification_mail ''fresh-c0de'' ''eve@example.org'']\<rparr>)"
    using registration_cases [of ?new "'' eve''" "''eve@example.org ''" sample_db bob "[]"
        post_office any_address "''fresh-c0de''"]
    by (simp add: sample_defs se next_id_def)
  show ?thesis
    by (intro conjI) (rule 1 2 3)+
qed

text \<open>
  The claim as stated fails: with the username \<open>me\<close> neither field matches a user
  and no user is created; when the mail backend refuses the message, a request that
  matches ann exactly is answered with a validation error; and a username that matches
  no user as submitted, but is bob's once the leading blank is trimmed, is refused.
\<close>

theorem registration_counterexample:
  "RegisterViewSet_create any_address ''fresh-c0de'' sample_db post_office
     \<lparr>rq_username = Some ''me'', rq_email = Some ''me@example.org''\<rparr>
   = (HTTP_400_BAD_REQUEST [''username''], sample_db, post_office)
   \<and> RegisterViewSet_create any_address ''fresh-c0de'' sample_db dead_office
     \<lparr>rq_username = Some ''ann'', rq_email = Some ''ann@example.org''\<rparr>
   = (HTTP_400_BAD_REQUEST [''email'', ''username''], sample_db, dead_office)
   \<and> RegisterViewSet_create any_address ''fresh-c0de'' sample_db post_office
     \<lparr>rq_username = Some '' bob'', rq_email = Some ''rob@example.org''\<rparr>
   = (HTTP_400_BAD_REQUEST [''username''], sample_db, post_office)
   \<and> '' bob'' \<notin> set (map username (users sample_db))
   \<and> ''rob@example.org'' \<notin> set (map email (users sample_db))"
  by (simp add: RegisterViewSet_create_def resend_confirmation_code_def send_mail_def
        validate_and_create_def RegisterSerializer_is_valid_def register_email_field_def
        register_username_field_def validate_username_def CharField_run_validation_def
        strip_def isspace_def any_address_def post_office_def dead_office_def
        sample_db_def ann_def bob_def mia_def)

text \<open>
  Claim C10: whatever exception the body of the \<open>try\<close> raises, the response is the
  one of the validate-and-create path on the unchanged store; a missing username or
  email key raises \<open>KeyError\<close> there and a refused mail after a successful lookup
  raises \<open>SMTPException\<close>; when the body raises nothing, its response is 200 with
  the submitted data. So no error of the resend branch reaches the caller.
\<close>

theorem resend_errors_fall_through:
  "(\<forall>ex. resend_confirmation_code db m d = Inl ex
       \<longrightarrow> RegisterViewSet_create EV code db m d = validate_and_create EV code db m d)
 \<and> (rq_username d = None \<or> rq_email d = None
       \<longrightarrow> resend_confirmation_code db m d = Inl KeyError)
 \<and> (\<forall>u e found others.
       rq_username d = Some u \<and> rq_email d = Some e
       \<and> filter (\<lambda>x. username x = u \<and> email x = e) (users db) = found # others
       \<and> \<not> delivers m (verification_mail (confirmation_code found) e)
       \<longrightarrow> resend_confirmation_code db m d = Inl SMTPException)
 \<and> (\<forall>resp m'. resend_confirmation_code db m d = Inr (resp, m')
       \<longrightarrow> resp = HTTP_200_OK d
           \<and> RegisterViewSet_create EV code db m d = (resp, db, m'))"
proof (intro conjI allI impI)
  fix ex
  assume "resend_confirmation_code db m d = Inl ex"
  then show "RegisterViewSet_create EV code db m d = validate_and_create EV code db m d"
    by (simp add: RegisterViewSet_create_def)
next
  assume "rq_username d = None \<or> rq_email d = None"
  then show "resend_confirmation_code db m d = Inl KeyError"
    by (auto simp: resend_confirmation_code_def split: option.splits)
next
  fix u e found others
  assume "rq_username d = Some u \<and> rq_email d = Some e
       \<and> filter (\<lambda>x. username x = u \<and> email x = e) (users db) = found # others
       \<and> \<not> delivers m (verification_mail (confirmation_code found) e)"
  then show "resend_confirmation_code db m d = Inl SMTPException"
    by (simp add: resend_confirmation_code_def send_mail_def)
next
  fix resp m'
  assume r: "resend_confirmation_code db m d = Inr (resp, m')"
  then show "resp = HTTP_200_OK d"
    by (auto simp: resend_confirmation_code_def split: option.splits list.splits sum.splits)
  from r show "RegisterViewSet_create EV code db m d = (resp, db, m')"
    by (simp add: RegisterViewSet_create_def)
qed

theorem resend_errors_fall_through_witness:
  "resend_confirmation_code sample_db post_office \<lparr>rq_username = None, rq_email = Some ''x''\<rparr>
     = Inl KeyError
   \<and> RegisterViewSet_create any_address ''fresh-c0de'' sample_db post_office
        \<lparr>rq_username = None, rq_email = Some ''x''\<rparr>
     = validate_and_create any_address ''fresh-c0de'' sample_db post_office
        \<lparr>rq_username = None, rq_email = Some ''x''\<rparr>
   \<and> resend_confirmation_code sample_db dead_office
        \<lparr>rq_username = Some ''ann'', rq_email = Some ''ann@example.org''\<rparr>
     = Inl SMTPException
   \<and> RegisterViewSet_create any_address ''fresh-c0de'' sample_db dead_office
        \<lparr>rq_username = Some ''ann'', rq_email = Some ''ann@example.org''\<rparr>
     = validate_and_create any_address ''fresh-c0de'' sample_db dead_office
        \<lparr>rq_username = Some ''ann'', rq_email = Some ''ann@example.org''\<rparr>
   \<and> validate_and_create any_address ''fresh-c0de'' sample_db dead_office
        \<lparr>rq_username = Some ''ann'', rq_email = Some ''ann@example.org''\<rparr>
     = (HTTP_400_BAD_REQUEST [''email'', ''username''], sample_db, dead_office)
   \<and> RegisterViewSet_create any_address ''fresh-c0de'' sample_db post_office
        \<lparr>rq_username = Some ''ann'', rq_email = Some ''ann@example.org''\<rparr>
     = (HTTP_200_OK \<lparr>rq_username = Some ''ann'', rq_email = Some ''ann@example.org''\<rparr>,
        sample_db,
        post_office\<lparr>outbox := [verification_mail ''c0de-ann'' ''ann@example.org'']\<rparr>)"
proof -
  let ?nokey = "\<lparr>rq_username = None, rq_email = Some ''x''\<rparr>"
  let ?ann = "\<lparr>rq_username = Some ''ann'', rq_email = Some ''ann@example.org''\<rparr>"
  note a = resend_errors_fall_through [of sample_db post_office ?nokey any_address "''fresh-c0de''"]
  note b = resend_errors_fall_through [of sample_db dead_office ?ann any_address "''fresh-c0de''"]
  from a have 1: "resend_confirmation_code sample_db post_office ?nokey = Inl KeyError"
    by simp
  with a have 2: "RegisterViewSet_create any_address ''fresh-c0de'' sample_db post_office ?nokey
     = validate_and_create any_address ''fresh-c0de'' sample_db post_office ?nokey"
    by blast
  have "filter (\<lambda>x. username x = ''ann'' \<and> email x = ''ann@example.org'') (users sample_db)
          = ann # []"
    by (simp add: sample_defs)
  moreover have "\<not> delivers dead_office (verification_mail (confirmation_code ann) ''ann@example.org'')"
    by (simp add: dead_office_def)
  ultimately have 3: "resend_confirmation_code sample_db dead_office ?ann = Inl SMTPException"
    using b by simp
  with b have 4: "RegisterViewSet_create any_address ''fresh-c0de'' sample_db dead_office ?ann
     = validate_and_create any_address ''fresh-c0de'' sample_db dead_office ?ann"
    by blast
  have 5: "validate_and_create any_address ''fresh-c0de'' sample_db dead_office ?ann
     = (HTTP_400_BAD_REQUEST [''email'', ''username''], sample_db, dead_office)"
    by (simp add: validate_and_create_def RegisterSerializer_is_valid_def
        register_email_field_def register_username_field_def field_defs sample_defs)
  have sent: "resend_confirmation_code sample_db post_office ?ann
     = Inr (HTTP_200_OK ?ann,
            post_office\<lparr>outbox := [verification_mail ''c0de-ann'' ''ann@example.org'']\<rparr>)"
    by (simp add: resend_confirmation_code_def send_mail_def sample_defs)
  note c = resend_errors_fall_through [of sample_db post_office ?ann any_address "''fresh-c0de''"]
  from c sent
  have 6: "RegisterViewSet_create any_address ''fresh-c0de'' sample_db post_office ?ann
     = (HTTP_200_OK ?ann, sample_db,
        post_office\<lparr>outbox := [verification_mail ''c0de-ann'' ''ann@example.org'']\<rparr>)"
    by simp
  show ?thesis
    by (intro conjI) (rule 1 2 3 4 5 6)+
qed

section \<open>Token issuance\<close>

lemma token_fields_ok:
  assumes "td_username d = Some u" and "td_confirmation_code d = Some c"
    and "strip u \<noteq> []" and "CHR 0x00 \<notin> set (strip u)"
    and "strip c \<noteq> []" and "CHR 0x00 \<notin> set (strip c)"
  shows "ObtainTokenSerializer_is_valid db d = ObtainTokenSerializer_validate db (strip u, strip c)"
  using assms by (simp add: ObtainTokenSerializer_is_valid_def CharField_run_validation_def)

lemma get_object_or_404_none:
  "filter P rows = [] \<Longrightarrow> get_object_or_404 rows P = Inl Http404"
  by (simp add: get_object_or_404_def)

text \<open>
  Claim C5, as the code has it. A token request with a missing or blank field fails with
  a validation error before any user is looked up. Otherwise the fields are trimmed of
  surrounding whitespace: if no user has the trimmed username the outcome is not-found;
  if the user exists and the trimmed code differs from the stored one the outcome is a
  validation error; if they are equal the response is 200 with a token bound to that
  user. The store is unchanged in every case.
\<close>

theorem token_request_cases:
  "(isl (CharField_run_validation None (td_username d))
      \<or> isl (CharField_run_validation None (td_confirmation_code d))
    \<longrightarrow> (\<exists>ks. ks \<noteq> [] \<and> ObtainTokenView_post db d = (HTTP_400_BAD_REQUEST ks, db)))
 \<and> (td_username d = Some u \<and> td_confirmation_code d = Some c
      \<and> strip u \<noteq> [] \<and> CHR 0x00 \<notin> set (strip u)
      \<and> strip c \<noteq> [] \<and> CHR 0x00 \<notin> set (strip c)
    \<longrightarrow> (filter (\<lambda>x. username x = strip u) (users db) = []
           \<longrightarrow> ObtainTokenView_post db d = (HTTP_404_NOT_FOUND, db))
        \<and> (filter (\<lambda>x. username x = strip u) (users db) = [found]
             \<and> strip c \<noteq> confirmation_code found
           \<longrightarrow> ObtainTokenView_post db d = (HTTP_400_BAD_REQUEST [''non_field_errors''], db))
        \<and> (filter (\<lambda>x. username x = strip u) (users db) = [found]
             \<and> strip c = confirmation_code found
           \<longrightarrow> ObtainTokenView_post db d = (HTTP_200_OK (AccessToken (user_id found)), db)))"
proof (intro conjI impI)
  assume "isl (CharField_run_validation None (td_username d))
      \<or> isl (CharField_run_validation None (td_confirmation_code d))"
  then show "\<exists>ks. ks \<noteq> [] \<and> ObtainTokenView_post db d = (HTTP_400_BAD_REQUEST ks, db)"
    by (cases "CharField_run_validation None (td_username d)";
        cases "CharField_run_validation None (td_confirmation_code d)")
       (auto simp: ObtainTokenView_post_def ObtainTokenSerializer_is_valid_def)
next
  assume a: "td_username d = Some u \<and> td_confirmation_code d = Some c
      \<and> strip u \<noteq> [] \<and> CHR 0x00 \<notin> set (strip u)
      \<and> strip c \<noteq> [] \<and> CHR 0x00 \<notin> set (strip c)"
  then have v: "ObtainTokenSerializer_is_valid db d
                  = ObtainTokenSerializer_validate db (strip u, strip c)"
    by (intro token_fields_ok) blast+
  {
    assume "filter (\<lambda>x. username x = strip u) (users db) = []"
    then show "ObtainTokenView_post db d = (HTTP_404_NOT_FOUND, db)"
      by (simp add: ObtainTokenView_post_def v ObtainTokenSerializer_validate_def
            get_object_or_404_none)
  next
    assume "filter (\<lambda>x. username x = strip u) (users db) = [found]
             \<and> strip c \<noteq> confirmation_code found"
    then show "ObtainTokenView_post db d = (HTTP_400_BAD_REQUEST [''non_field_errors''], db)"
      by (simp add: ObtainTokenView_post_def v ObtainTokenSerializer_validate_def
            get_object_or_404_def)
  next
    assume "filter (\<lambda>x. username x = strip u) (users db) = [found]
             \<and> strip c = confirmation_code found"
    then show "ObtainTokenView_post db d = (HTTP_200_OK (AccessToken (user_id found)), db)"
      by (simp add: ObtainTokenView_post_def v ObtainTokenSerializer_validate_def
            get_object_or_404_def)
  }
qed

theorem token_request_cases_witness:
  "ObtainTokenView_post sample_db \<lparr>td_username = Some ''zed'', td_confirmation_code = Some ''c0de-ann''\<rparr>
     = (HTTP_404_NOT_FOUND, sample_db)
   \<and> ObtainTokenView_post sample_db \<lparr>td_username = Some ''ann'', td_confirmation_code = Some ''c0de-bob''\<rparr>
     = (HTTP_400_BAD_REQUEST [''non_field_errors''], sample_db)
   \<and> ObtainTokenView_post sample_db \<lparr>td_username = Some ''ann'', td_confirmation_code = Some ''c0de-ann''\<rparr>
     = (HTTP_200_OK (AccessToken 1), sample_db)
   \<and> (\<exists>ks. ks \<noteq> []
        \<and> ObtainTokenView_post sample_db \<lparr>td_username = Some ''ann'', td_confirmation_code = None\<rparr>
          = (HTTP_400_BAD_REQUEST ks, sample_db))"
proof -
  have s: "strip ''zed'' = ''zed''" "strip ''ann'' = ''ann''" "strip ''c0de-ann'' = ''c0de-ann''"
    "strip ''c0de-bob'' = ''c0de-bob''"
    by (simp_all add: strip_def isspace_def)
  have 1: "ObtainTokenView_post sample_db
             \<lparr>td_username = Some ''zed'', td_confirmation_code = Some ''c0de-ann''\<rparr>
           = (HTTP_404_NOT_FOUND, sample_db)"
    using token_request_cases [of "\<lparr>td_username = Some ''zed'', td_confirmation_code = Some ''c0de-ann''\<rparr>"
        sample_db "''zed''" "''c0de-ann''" ann]
    by (simp add: s sample_defs)
  have 2: "ObtainTokenView_post sample_db
             \<lparr>td_username = Some ''ann'', td_confirmation_code = Some ''c0de-bob''\<rparr>
           = (HTTP_400_BAD_REQUEST [''non_field_errors''], sample_db)"
    using token_request_cases [of "\<lparr>td_username = Some ''ann'', td_confirmation_code = Some ''c0de-bob''\<rparr>"
        sample_db "''ann''" "''c0de-bob''" ann]
    by (simp add: s sample_defs)
  have 3: "ObtainTokenView_post sample_db
             \<lparr>td_username = Some ''ann'', td_confirmation_code = Some ''c0de-ann''\<rparr>
           = (HTTP_200_OK (AccessToken 1), sample_db)"
    using token_request_cases [of "\<lparr>td_username = Some ''ann'', td_confirmation_code = Some ''c0de-ann''\<rparr>"
        sample_db "''ann''" "''c0de-ann''" ann]
    by (simp add: s sample_defs)
  have 4: "\<exists>ks. ks \<noteq> []
        \<and> ObtainTokenView_post sample_db \<lparr>td_username = Some ''ann'', td_confirmation_code = None\<rparr>
          = (HTTP_400_BAD_REQUEST ks, sample_db)"
    using token_request_cases [of "\<lparr>td_username = Some ''ann'', td_confirmation_code = None\<rparr>"
        sample_db]
    by (simp add: CharField_run_validation_def)
  show ?thesis
    by (intro conjI) (rule 1 2 3 4)+
qed

text \<open>
  The claim as stated fails: a supplied code that differs from the stored one by a
  trailing blank is accepted, and an unknown username with an empty code is answered
  with a validation error, not with not-found.
\<close>

theorem token_request_counterexample:
  "ObtainTokenView_post sample_db
     \<lparr>td_username = Some ''ann'', td_confirmation_code = Some ''c0de-ann ''\<rparr>
   = (HTTP_200_OK (AccessToken 1), sample_db)
   \<and> ''c0de-ann '' \<noteq> confirmation_code ann
   \<and> ObtainTokenView_post sample_db
     \<lparr>td_username = Some ''zed'', td_confirmation_code = Some []\<rparr>
   = (HTTP_400_BAD_REQUEST [''confirmation_code''], sample_db)
   \<and> filter (\<lambda>x. username x = ''zed'') (users sample_db) = []"
  by (simp add: ObtainTokenView_post_def ObtainTokenSerializer_is_valid_def
        ObtainTokenSerializer_validate_def get_object_or_404_def field_defs sample_defs)

text \<open>
  Claim C9: a token request that succeeds leaves the store, and so every stored
  confirmation code, unchanged, and the same request succeeds again on the store it
  leaves.
\<close>

theorem token_reissue:
  assumes "ObtainTokenView_post db d = (HTTP_200_OK tok, db')"
  shows "db' = db
       \<and> map confirmation_code (users db') = map confirmation_code (users db)
       \<and> ObtainTokenView_post db' d = (HTTP_200_OK tok, db')"
proof -
  from assms have "db' = db"
    by (auto simp: ObtainTokenView_post_def split: sum.splits)
  with assms show ?thesis by simp
qed

theorem token_reissue_witness:
  "ObtainTokenView_post sample_db
     \<lparr>td_username = Some ''ann'', td_confirmation_code = Some ''c0de-ann''\<rparr>
     = (HTTP_200_OK (AccessToken 1), sample_db)
   \<and> map confirmation_code (users sample_db) = [''c0de-ann'', ''c0de-bob'', ''c0de-mia'']
   \<and> ObtainTokenView_post
       (snd (ObtainTokenView_post sample_db
               \<lparr>td_username = Some ''ann'', td_confirmation_code = Some ''c0de-ann''\<rparr>))
       \<lparr>td_username = Some ''ann'', td_confirmation_code = Some ''c0de-ann''\<rparr>
     = (HTTP_200_OK (AccessToken 1), sample_db)"
proof -
  let ?d = "\<lparr>td_username = Some ''ann'', td_confirmation_code = Some ''c0de-ann''\<rparr>"
  have first: "ObtainTokenView_post sample_db ?d = (HTTP_200_OK (AccessToken 1), sample_db)"
    by (simp add: ObtainTokenView_post_def ObtainTokenSerializer_is_valid_def
        ObtainTokenSerializer_validate_def get_object_or_404_def field_defs sample_defs)
  from token_reissue [OF first] first show ?thesis
    by (simp add: sample_defs)
qed

end
